theory Spec2Isabelle
  imports Complex_Main "HOL-Library.Char_ord" "HOL-Library.List_Lexorder"
    "HOL-Library.Product_Lexorder" "HOL-Library.Multiset"
begin

section \<open>The calorie tracker's record store (data\_manager.py)\<close>

text \<open>
  The store keeps one spreadsheet file. Every method of \<^verbatim>\<open>DataManager\<close> reads the whole
  table, works on it in memory and writes the whole table back. The embedding follows
  the Python method by method:
  \<^item> a pandas DataFrame with the seven columns of \<^verbatim>\<open>self.columns\<close> is a list of rows, in
    index order; a numeric cell is \<open>real option\<close>, where \<open>None\<close> is pandas' NaN (an empty
    spreadsheet cell) and the reals idealise the floats;
  \<^item> the spreadsheet file holds the table that was written, and reading it back is what
    pandas does to text: a cell whose text is one of pandas' markers of a missing value
    is read as missing;
  \<^item> the file system, the log and the clock are a \<open>world\<close> that each method takes and
    returns;
  \<^item> an exception is the \<open>Inl\<close> of a sum, \<^verbatim>\<open>try/except Exception\<close> is \<open>try_except\<close>.
\<close>

subsection \<open>Tables\<close>

record 'd row_of =
  Date :: 'd
  Calories :: "real option"
  Protein :: "real option"
  Carbs :: "real option"
  Fat :: "real option"
  Weight :: "real option"
  Calorie_Goal :: "real option"

text \<open>
  In a frame of the store the Date column holds strings. In the frame that
  \<^verbatim>\<open>pd.read_excel\<close> returns a Date cell may be missing (NaN), until line 51 makes it a
  string again.
\<close>

type_synonym row = "string row_of"

type_synonym frame = "row list"

type_synonym xl_row = "string option row_of"

text \<open>Calendar dates (\<^verbatim>\<open>datetime.date\<close>, and a pandas Timestamp at midnight).\<close>

datatype date = YMD (year: int) (month: int) (day: int)

record datetime =
  date_part :: date
  hour :: nat
  minute :: nat
  second :: nat

subsection \<open>The world: file, permissions, log, clock\<close>

datatype exn = OSError | BadFile | ParserError | OverflowError

datatype disk = Absent | Corrupt | Sheet frame

datatype log_entry = Info string | Error string exn

record world =
  disk :: disk
  writable :: bool
  backup_writable :: bool
  backups :: "(string \<times> disk) list"
  log :: "log_entry list"
  now :: datetime

type_synonym 'a io = "world \<Rightarrow> (exn + 'a) \<times> world"

definition io_return :: "'a \<Rightarrow> 'a io" where
  "io_return x = (\<lambda>w. (Inr x, w))"

definition io_raise :: "exn \<Rightarrow> 'a io" where
  "io_raise e = (\<lambda>w. (Inl e, w))"

definition io_bind :: "'a io \<Rightarrow> ('a \<Rightarrow> 'b io) \<Rightarrow> 'b io" where
  "io_bind m f = (\<lambda>w. case m w of (Inl e, w') \<Rightarrow> (Inl e, w') | (Inr x, w') \<Rightarrow> f x w')"

definition try_except :: "'a io \<Rightarrow> (exn \<Rightarrow> 'a io) \<Rightarrow> 'a io" where
  "try_except m h = (\<lambda>w. case m w of (Inl e, w') \<Rightarrow> h e w' | (Inr x, w') \<Rightarrow> (Inr x, w'))"

definition logger_info :: "string \<Rightarrow> unit io" where
  "logger_info msg = (\<lambda>w. (Inr (), w\<lparr>log := log w @ [Info msg]\<rparr>))"

definition logger_error :: "string \<Rightarrow> exn \<Rightarrow> unit io" where
  "logger_error msg e = (\<lambda>w. (Inr (), w\<lparr>log := log w @ [Error msg e]\<rparr>))"

text \<open>
  The spreadsheet codec and the file system are libraries. \<^verbatim>\<open>os.path.exists\<close> sees whether
  the file is there; \<^verbatim>\<open>pd.read_excel\<close> returns the stored sheet or raises on a file that
  is not a workbook; \<^verbatim>\<open>df.to_excel\<close> replaces the whole file or raises when the data
  file cannot be written (\<open>writable\<close>); a new file beside it can be created when
  \<open>backup_writable\<close>. The stored sheet has the fixed header of \<^verbatim>\<open>self.columns\<close> and
  text in its Date column, which is what the store itself writes.

  \<^verbatim>\<open>pd.read_excel\<close> reads a text cell as missing when its text is in pandas' default set
  of markers (\<^verbatim>\<open>keep_default_na\<close>; the first of them is the empty string), and as the
  text otherwise.
\<close>

definition na_values :: "string list" where
  "na_values =
     [[], ''#N/A'', ''#N/A N/A'', ''#NA'', ''-1.#IND'', ''-1.#QNAN'', ''-NaN'', ''-nan'',
      ''1.#IND'', ''1.#QNAN'', ''<NA>'', ''N/A'', ''NA'', ''NULL'', ''NaN'', ''None'',
      ''n/a'', ''nan'', ''null'']"

definition read_text :: "string \<Rightarrow> string option" where
  "read_text s = (if s \<in> set na_values then None else Some s)"

definition read_row :: "row \<Rightarrow> xl_row" where
  "read_row r =
     \<lparr>Date = read_text (Date r), Calories = Calories r, Protein = Protein r, Carbs = Carbs r,
      Fat = Fat r, Weight = Weight r, Calorie_Goal = Calorie_Goal r\<rparr>"

text \<open>\<^verbatim>\<open>astype(str)\<close> on the Date column: a string stays, a missing cell becomes \<^verbatim>\<open>nan\<close>.\<close>

definition astype_str :: "string option \<Rightarrow> string" where
  "astype_str c = (case c of None \<Rightarrow> ''nan'' | Some s \<Rightarrow> s)"

definition astype_row :: "xl_row \<Rightarrow> row" where
  "astype_row r =
     \<lparr>Date = astype_str (Date r), Calories = Calories r, Protein = Protein r, Carbs = Carbs r,
      Fat = Fat r, Weight = Weight r, Calorie_Goal = Calorie_Goal r\<rparr>"

definition os_path_exists :: "bool io" where
  "os_path_exists = (\<lambda>w. (Inr (disk w \<noteq> Absent), w))"

definition read_excel :: "xl_row list io" where
  "read_excel = (\<lambda>w. case disk w of
       Sheet df \<Rightarrow> (Inr (map read_row df), w)
     | Corrupt \<Rightarrow> (Inl BadFile, w)
     | Absent \<Rightarrow> (Inl OSError, w))"

definition to_excel :: "frame \<Rightarrow> unit io" where
  "to_excel df = (\<lambda>w. if writable w then (Inr (), w\<lparr>disk := Sheet df\<rparr>) else (Inl OSError, w))"

subsection \<open>Creating, loading and saving the file\<close>

text \<open>\<^verbatim>\<open>ensure_data_file_exists\<close> (called by the constructor) logs a failure and raises it again.\<close>

definition ensure_data_file_exists :: "unit io" where
  "ensure_data_file_exists =
     io_bind os_path_exists (\<lambda>ex.
       if \<not> ex then
         try_except
           (io_bind (to_excel []) (\<lambda>_. logger_info ''Created new data file''))
           (\<lambda>e. io_bind (logger_error ''Failed to create data file'' e) (\<lambda>_. io_raise e))
       else io_return ())"

text \<open>
  \<^verbatim>\<open>load_data\<close>: with the fixed header every required column is present, so the loop that
  adds a missing column changes nothing; line 51 is \<open>map astype_row\<close>.
\<close>

definition load_data :: "frame io" where
  "load_data =
     try_except
       (io_bind os_path_exists (\<lambda>ex.
          if ex then io_bind read_excel (\<lambda>df. io_return (map astype_row df))
          else io_return []))
       (\<lambda>e. io_bind (logger_error ''Failed to load data'' e) (\<lambda>_. io_return []))"

definition save_data :: "frame \<Rightarrow> bool io" where
  "save_data df =
     try_except
       (io_bind (to_excel df) (\<lambda>_.
        io_bind (logger_info ''Data saved successfully'') (\<lambda>_.
        io_return True)))
       (\<lambda>e. io_bind (logger_error ''Failed to save data'' e) (\<lambda>_. io_return False))"

definition get_all_data :: "frame io" where
  "get_all_data = load_data"

subsection \<open>Point lookup, upsert, delete\<close>

definition get_day_data :: "string \<Rightarrow> row option io" where
  "get_day_data date_str =
     try_except
       (io_bind load_data (\<lambda>df.
          if df = [] then io_return None
          else (case filter (\<lambda>r. Date r = date_str) df of
                  [] \<Rightarrow> io_return None
                | r # _ \<Rightarrow> io_return (Some r))))
       (\<lambda>e. io_bind (logger_error ''Failed to get day data'' e) (\<lambda>_. io_return None))"

text \<open>The position of the first row that satisfies \<open>P\<close>: \<^verbatim>\<open>existing_row.index[0]\<close>.\<close>

fun first_index :: "('a \<Rightarrow> bool) \<Rightarrow> 'a list \<Rightarrow> nat option" where
  "first_index P [] = None"
| "first_index P (x # xs) =
     (if P x then Some 0 else map_option Suc (first_index P xs))"

text \<open>The new row of line 114: every column but Date starts at the number 0.\<close>

definition new_row :: "string \<Rightarrow> row" where
  "new_row date_str =
     \<lparr>Date = date_str, Calories = Some 0, Protein = Some 0, Carbs = Some 0, Fat = Some 0,
      Weight = Some 0, Calorie_Goal = Some 0\<rparr>"

text \<open>\<^verbatim>\<open>current = cell if not pd.isna(cell) else 0\<close>\<close>

definition current :: "real option \<Rightarrow> real" where
  "current c = (case c of None \<Rightarrow> 0 | Some v \<Rightarrow> v)"

text \<open>One pass of the loop over \<^verbatim>\<open>updates.items()\<close>; an unknown field name is skipped.\<close>

fun apply_update :: "row \<Rightarrow> string \<times> real \<Rightarrow> row" where
  "apply_update r (field, val) =
     (if field = ''calories'' then r\<lparr>Calories := Some (current (Calories r) + val)\<rparr>
      else if field = ''protein'' then r\<lparr>Protein := Some (current (Protein r) + val)\<rparr>
      else if field = ''carbs'' then r\<lparr>Carbs := Some (current (Carbs r) + val)\<rparr>
      else if field = ''fat'' then r\<lparr>Fat := Some (current (Fat r) + val)\<rparr>
      else if field = ''weight'' then r\<lparr>Weight := Some val\<rparr>
      else if field = ''goal'' then r\<lparr>Calorie_Goal := Some val\<rparr>
      else r)"

definition apply_updates :: "(string \<times> real) list \<Rightarrow> row \<Rightarrow> row" where
  "apply_updates updates r = fold (\<lambda>u r. apply_update r u) updates r"

text \<open>
  \<^verbatim>\<open>update_day_data\<close>. The dict \<^verbatim>\<open>updates\<close> is the list of its items in iteration order.
  After \<^verbatim>\<open>load_data\<close> the index of the frame is \<open>0, 1, ...\<close>, so the label
  \<^verbatim>\<open>existing_row.index[0]\<close> is a position, and the appended row sits at \<^verbatim>\<open>len(df) - 1\<close>.
\<close>

definition update_day_data :: "string \<Rightarrow> (string \<times> real) list \<Rightarrow> bool io" where
  "update_day_data date_str updates =
     try_except
       (io_bind load_data (\<lambda>df.
          let (df1, row_index) =
                (case first_index (\<lambda>r. Date r = date_str) df of
                   None \<Rightarrow> (df @ [new_row date_str], length (df @ [new_row date_str]) - 1)
                 | Some i \<Rightarrow> (df, i))
          in save_data (df1[row_index := apply_updates updates (df1 ! row_index)])))
       (\<lambda>e. io_bind (logger_error ''Failed to update day data'' e) (\<lambda>_. io_return False))"

definition delete_day_data :: "string \<Rightarrow> bool io" where
  "delete_day_data date_str =
     try_except
       (io_bind load_data (\<lambda>df. save_data (filter (\<lambda>r. Date r \<noteq> date_str) df)))
       (\<lambda>e. io_bind (logger_error ''Failed to delete day data'' e) (\<lambda>_. io_return False))"

text \<open>
  What a caller sees of the table: the frame that \<^verbatim>\<open>load_data\<close> returns (lemma
  \<open>load_data_eq\<close>). A row comes back with its Date text, or with \<^verbatim>\<open>nan\<close> when the text is
  one that pandas reads as missing.
\<close>

definition reread :: "row \<Rightarrow> row" where
  "reread r = astype_row (read_row r)"

definition stored :: "world \<Rightarrow> frame" where
  "stored w = (case disk w of Sheet df \<Rightarrow> map reread df | _ \<Rightarrow> [])"

text \<open>
  The table that \<^verbatim>\<open>update_day_data\<close> hands to \<^verbatim>\<open>save_data\<close>, as a function of the table
  it loaded (used to state the lemmas about the method, which is defined above).
\<close>

definition upsert_rows :: "string \<Rightarrow> (string \<times> real) list \<Rightarrow> frame \<Rightarrow> frame" where
  "upsert_rows d u df = (case first_index (\<lambda>r. Date r = d) df of
      None \<Rightarrow> df @ [apply_updates u (new_row d)]
    | Some i \<Rightarrow> df[i := apply_updates u (df ! i)])"

subsection \<open>Vocabulary of the upsert policy\<close>

text \<open>A caller that upserts the dicts \<open>us\<close>, one call after the other, for the date \<open>d\<close>.\<close>

fun upsert_all :: "string \<Rightarrow> (string \<times> real) list list \<Rightarrow> world \<Rightarrow> world" where
  "upsert_all d [] w = w"
| "upsert_all d (u # us) w = upsert_all d us (snd (update_day_data d u w))"

text \<open>The values that the calls supply for the field \<open>f\<close>, in call order.\<close>

definition supplied :: "string \<Rightarrow> (string \<times> real) list list \<Rightarrow> real list" where
  "supplied f us = List.map_filter (\<lambda>u. map_of u f) us"

text \<open>
  The two policies in the spec's words: an additive field ends as its current value
  (0 when missing) plus every supplied value; a replaced field ends as the last
  supplied value. A field that no call supplies keeps its value.
\<close>

definition add_policy :: "real option \<Rightarrow> real list \<Rightarrow> real option" where
  "add_policy c vs = (if vs = [] then c else Some (current c + sum_list vs))"

definition replace_policy :: "real option \<Rightarrow> real list \<Rightarrow> real option" where
  "replace_policy c vs = (if vs = [] then c else Some (last vs))"

text \<open>The row the first call starts from: the stored row of the date, or the new row.\<close>

definition base_row :: "string \<Rightarrow> frame \<Rightarrow> row" where
  "base_row d df = (case find (\<lambda>r. Date r = d) df of None \<Rightarrow> new_row d | Some r \<Rightarrow> r)"

text \<open>A store on its first day: the file holds the header and no rows, and can be written.\<close>

definition empty_store :: world where
  "empty_store =
     \<lparr>disk = Sheet [], writable = True, backup_writable = True, backups = [], log = [],
      now = \<lparr>date_part = YMD 2024 1 15, hour = 12, minute = 0, second = 0\<rparr>\<rparr>"

section \<open>Dates\<close>

subsection \<open>The proleptic Gregorian calendar of \<^verbatim>\<open>datetime.date\<close>\<close>

text \<open>
  The calendar arithmetic is the library's (\<^verbatim>\<open>datetime.py\<close> in the Python distribution):
  day 1 is 0001-01-01, a Monday, and the largest date is 9999-12-31. A \<^verbatim>\<open>datetime.date\<close>
  always has a month from 1 to 12 and a day of that month; the tables below are read
  at such months only.
\<close>

definition is_leap :: "int \<Rightarrow> bool" where
  "is_leap y \<longleftrightarrow> y mod 4 = 0 \<and> (y mod 100 \<noteq> 0 \<or> y mod 400 = 0)"

definition days_before_year :: "int \<Rightarrow> int" where
  "days_before_year y = (y - 1) * 365 + (y - 1) div 4 - (y - 1) div 100 + (y - 1) div 400"

definition days_in_month :: "int \<Rightarrow> int \<Rightarrow> int" where
  "days_in_month y m =
     (if m = 2 \<and> is_leap y then 29
      else if m = 2 then 28
      else if m = 4 \<or> m = 6 \<or> m = 9 \<or> m = 11 then 30
      else 31)"

definition days_before_month :: "int \<Rightarrow> int \<Rightarrow> int" where
  "days_before_month y m =
     [0, 0, 31, 59, 90, 120, 151, 181, 212, 243, 273, 304, 334] ! nat m
       + (if m > 2 \<and> is_leap y then 1 else 0)"

definition toordinal :: "date \<Rightarrow> int" where
  "toordinal d = days_before_year (year d) + days_before_month (year d) (month d) + day d"

definition fromordinal :: "int \<Rightarrow> date" where
  "fromordinal n0 =
     (let n = n0 - 1;
          n400 = n div 146097; n = n mod 146097;
          n100 = n div 36524; n = n mod 36524;
          n4 = n div 1461; n = n mod 1461;
          n1 = n div 365; n = n mod 365;
          y = n400 * 400 + 1 + n100 * 100 + n4 * 4 + n1
      in if n1 = 4 \<or> n100 = 4 then YMD (y - 1) 12 31
         else
           let leapyear = (n1 = 3 \<and> (n4 \<noteq> 24 \<or> n100 = 3));
               m = (n + 50) div 32;
               preceding = [0, 0, 31, 59, 90, 120, 151, 181, 212, 243, 273, 304, 334] ! nat m
                             + (if m > 2 \<and> leapyear then 1 else 0)
           in if preceding > n
              then YMD y (m - 1)
                     (n - (preceding - ((if m - 1 = 2 \<and> leapyear then 29 else days_in_month 1 (m - 1)))) + 1)
              else YMD y m (n - preceding + 1))"

text \<open>\<^verbatim>\<open>date - timedelta(days=k)\<close>: an OverflowError outside years 1 to 9999.\<close>

definition date_minus_days :: "date \<Rightarrow> int \<Rightarrow> exn + date" where
  "date_minus_days d k =
     (let n = toordinal d - k
      in if 0 < n \<and> n \<le> 3652059 then Inr (fromordinal n) else Inl OverflowError)"

text \<open>Dates compare as their (year, month, day) triples, which is calendar order.\<close>

definition date_le :: "date \<Rightarrow> date \<Rightarrow> bool" where
  "date_le a b \<longleftrightarrow> (year a, month a, day a) \<le> (year b, month b, day b)"

text \<open>
  A pandas timestamp is a date or NaT, the missing timestamp (\<open>None\<close>); a comparison
  with NaT is false.
\<close>

definition ts_le :: "date option \<Rightarrow> date option \<Rightarrow> bool" where
  "ts_le a b = (case (a, b) of (Some x, Some y) \<Rightarrow> date_le x y | _ \<Rightarrow> False)"

text \<open>
  \<^verbatim>\<open>isocalendar()\<close>: the ISO year, the ISO week number and the ISO weekday. Week 1 of a
  year is the week (Monday to Sunday) that holds the year's first Thursday.
\<close>

definition isoweek1monday :: "int \<Rightarrow> int" where
  "isoweek1monday y =
     (let firstday = toordinal (YMD y 1 1);
          firstweekday = (firstday + 6) mod 7;
          week1monday = firstday - firstweekday
      in if firstweekday > 3 then week1monday + 7 else week1monday)"

definition isocalendar :: "date \<Rightarrow> int \<times> int \<times> int" where
  "isocalendar d =
     (let y = year d;
          today = toordinal d;
          week = (today - isoweek1monday y) div 7;
          wday = (today - isoweek1monday y) mod 7
      in if week < 0 then
           (y - 1, (today - isoweek1monday (y - 1)) div 7 + 1,
            (today - isoweek1monday (y - 1)) mod 7 + 1)
         else if week \<ge> 52 \<and> today \<ge> isoweek1monday (y + 1) then (y + 1, 1, wday + 1)
         else (y, week + 1, wday + 1))"

subsection \<open>Formatting and parsing\<close>

definition digit :: "int \<Rightarrow> char" where
  "digit n = ''0123456789'' ! nat (n mod 10)"

definition pad2 :: "int \<Rightarrow> string" where
  "pad2 n = [digit (n div 10), digit n]"

definition pad4 :: "int \<Rightarrow> string" where
  "pad4 n = [digit (n div 1000), digit (n div 100), digit (n div 10), digit n]"

text \<open>\<^verbatim>\<open>strftime('%Y-%m-%d')\<close> of a date, and \<^verbatim>\<open>strftime("%Y%m%d_%H%M%S")\<close> of a datetime.\<close>

definition strftime_ymd :: "date \<Rightarrow> string" where
  "strftime_ymd d = pad4 (year d) @ ''-'' @ pad2 (month d) @ ''-'' @ pad2 (day d)"

definition strftime_stamp :: "datetime \<Rightarrow> string" where
  "strftime_stamp t =
     pad4 (year (date_part t)) @ pad2 (month (date_part t)) @ pad2 (day (date_part t)) @ ''_''
       @ pad2 (int (hour t)) @ pad2 (int (minute t)) @ pad2 (int (second t))"

text \<open>
  \<^verbatim>\<open>pd.to_datetime\<close> is pandas' parser: of a string it makes a timestamp, or NaT, or it
  raises. The methods below take the parser of one date string as a parameter, so what
  is proved of them holds whatever strings the parser accepts. \<open>pd_to_datetime\<close> is the
  parser used to run examples: it reads the empty string and pandas' spellings of
  \<^verbatim>\<open>nan\<close> and \<^verbatim>\<open>NaT\<close> as NaT; it accepts year-month-day with a four digit year and a
  month and a day of one or two digits (pandas reads \<^verbatim>\<open>2024-1-5\<close> as \<^verbatim>\<open>2024-01-05\<close>), for
  the years 1678 to 2261 that lie wholly in the range of a pandas Timestamp; and it
  raises on every other string.
\<close>

type_synonym parser = "string \<Rightarrow> exn + date option"

definition nat_strings :: "string list" where
  "nat_strings = [[], ''NaT'', ''nat'', ''NAT'', ''nan'', ''NaN'', ''NAN'']"

definition digit_val :: "char \<Rightarrow> int option" where
  "digit_val c = map_option int (first_index (\<lambda>x. x = c) ''0123456789'')"

fun number_acc :: "int \<Rightarrow> string \<Rightarrow> int option" where
  "number_acc a [] = Some a"
| "number_acc a (c # cs) =
     (case digit_val c of None \<Rightarrow> None | Some v \<Rightarrow> number_acc (10 * a + v) cs)"

definition number :: "string \<Rightarrow> int option" where
  "number s = (if s = [] then None else number_acc 0 s)"

fun split_on :: "char \<Rightarrow> string \<Rightarrow> string list" where
  "split_on c [] = [[]]"
| "split_on c (x # xs) =
     (if x = c then [] # split_on c xs
      else (case split_on c xs of [] \<Rightarrow> [[x]] | p # ps \<Rightarrow> (x # p) # ps))"

definition pd_to_datetime :: parser where
  "pd_to_datetime s =
     (if s \<in> set nat_strings then Inr None else
      case split_on CHR ''-'' s of
        [ys, ms, ds] \<Rightarrow>
          (case (number ys, number ms, number ds) of
             (Some y, Some m, Some d) \<Rightarrow>
               if length ys = 4 \<and> length ms \<le> 2 \<and> length ds \<le> 2
                  \<and> 1678 \<le> y \<and> y \<le> 2261
                  \<and> 1 \<le> m \<and> m \<le> 12 \<and> 1 \<le> d \<and> d \<le> days_in_month y m
               then Inr (Some (YMD y m d)) else Inl ParserError
           | _ \<Rightarrow> Inl ParserError)
      | _ \<Rightarrow> Inl ParserError)"

text \<open>
  The parser on a column: a cell may become NaT, and the first string on which the
  parser raises makes the whole call raise.
\<close>

fun to_datetime_series :: "parser \<Rightarrow> string list \<Rightarrow> exn + date option list" where
  "to_datetime_series P [] = Inr []"
| "to_datetime_series P (s # ss) =
     (case P s of
        Inl e \<Rightarrow> Inl e
      | Inr d \<Rightarrow> (case to_datetime_series P ss of Inl e \<Rightarrow> Inl e | Inr ds \<Rightarrow> Inr (d # ds)))"

text \<open>A library call that returns or raises without touching the world.\<close>

definition io_of :: "exn + 'a \<Rightarrow> 'a io" where
  "io_of r = (\<lambda>w. (r, w))"

definition datetime_now :: "datetime io" where
  "datetime_now = (\<lambda>w. (Inr (now w), w))"

section \<open>Range queries, summary, backup\<close>

text \<open>
  \<^verbatim>\<open>get_date_range_data\<close>. The mask compares the parsed column \<^verbatim>\<open>Date_dt\<close> with the parsed
  bounds, and a row whose date is NaT fails it; the result is sorted by the column
  \<^verbatim>\<open>Date\<close>, which holds the strings. pandas'
  default sort does not fix the order of rows with equal keys; the model sorts stably,
  and nothing below depends on the order of equal keys.
\<close>

definition get_date_range_data :: "parser \<Rightarrow> string \<Rightarrow> string \<Rightarrow> frame io" where
  "get_date_range_data P start_date end_date =
     try_except
       (io_bind load_data (\<lambda>df.
          if df = [] then io_return []
          else
            io_bind (io_of (to_datetime_series P (map Date df))) (\<lambda>date_dt.
            io_bind (io_of (P start_date)) (\<lambda>start_dt.
            io_bind (io_of (P end_date)) (\<lambda>end_dt.
              let filtered_df =
                    map fst (filter (\<lambda>(r, dt). ts_le start_dt dt \<and> ts_le dt end_dt)
                               (zip df date_dt))
              in io_return (sort_key Date filtered_df))))))
       (\<lambda>e. io_bind (logger_error ''Failed to get date range data'' e) (\<lambda>_. io_return []))"

definition get_recent_data :: "parser \<Rightarrow> int \<Rightarrow> frame io" where
  "get_recent_data P days =
     try_except
       (io_bind datetime_now (\<lambda>t.
          let end_date = date_part t in
          io_bind (io_of (date_minus_days end_date (days - 1))) (\<lambda>start_date.
            get_date_range_data P (strftime_ymd start_date) (strftime_ymd end_date))))
       (\<lambda>e. io_bind (logger_error ''Failed to get recent data'' e) (\<lambda>_. io_return []))"

text \<open>\<^verbatim>\<open>Series.mean()\<close> skips NaN; the mean of a column without a value is NaN.\<close>

definition column_mean :: "(row \<Rightarrow> real option) \<Rightarrow> frame \<Rightarrow> real option" where
  "column_mean col df =
     (let vs = List.map_filter col df
      in if vs = [] then None else Some (sum_list vs / real (length vs)))"

record stats =
  avg_calories :: real
  avg_protein :: real
  avg_carbs :: real
  avg_fat :: real
  avg_weight :: real
  weight_change :: "real option"
  goal_achievement_rate :: real
  days_with_data :: nat

text \<open>\<^verbatim>\<open>df[col].mean() if not df[col].isna().all() else 0\<close>\<close>

definition mean_or_zero :: "(row \<Rightarrow> real option) \<Rightarrow> frame \<Rightarrow> real" where
  "mean_or_zero col df =
     (if \<not> list_all (\<lambda>r. col r = None) df
      then (case column_mean col df of Some m \<Rightarrow> m | None \<Rightarrow> 0)
      else 0)"

text \<open>
  Lines 221 to 245 of \<^verbatim>\<open>get_summary_stats\<close>, on the non-empty frame \<open>df\<close>. The weights of
  \<^verbatim>\<open>df.dropna(subset=['Weight'])\<close> are the defined weights in row order; the rows of
  \<^verbatim>\<open>goal_data\<close> are those with calories and goal both defined.
\<close>

definition summary_of :: "frame \<Rightarrow> stats" where
  "summary_of df =
     (let weight_data = List.map_filter Weight df;
          goal_data = List.map_filter
             (\<lambda>r. case (Calories r, Calorie_Goal r) of
                     (Some c, Some g) \<Rightarrow> Some (c, g) | _ \<Rightarrow> None) df;
          goals_met = length (filter (\<lambda>(c, g). c \<ge> g) goal_data)
      in \<lparr>avg_calories = mean_or_zero Calories df,
          avg_protein = mean_or_zero Protein df,
          avg_carbs = mean_or_zero Carbs df,
          avg_fat = mean_or_zero Fat df,
          avg_weight = mean_or_zero Weight df,
          weight_change =
            (if length weight_data \<ge> 2 then Some (last weight_data - hd weight_data) else None),
          goal_achievement_rate =
            (if goal_data \<noteq> [] then real goals_met / real (length goal_data) * 100 else 0),
          days_with_data =
            length (filter (\<lambda>r. case Calories r of Some c \<Rightarrow> c > 0 | None \<Rightarrow> False) df)\<rparr>)"

definition get_summary_stats :: "parser \<Rightarrow> int \<Rightarrow> stats option io" where
  "get_summary_stats P days =
     try_except
       (io_bind (get_recent_data P days) (\<lambda>df.
          if df = [] then io_return None else io_return (Some (summary_of df))))
       (\<lambda>e. io_bind (logger_error ''Failed to get summary stats'' e) (\<lambda>_. io_return None))"

text \<open>
  \<^verbatim>\<open>shutil.copy2\<close> copies the file as it is; it raises when there is no file to copy or
  the destination cannot be created.
\<close>

definition copy2 :: "string \<Rightarrow> unit io" where
  "copy2 dst = (\<lambda>w.
     if disk w = Absent \<or> \<not> backup_writable w then (Inl OSError, w)
     else (Inr (), w\<lparr>backups := (dst, disk w) # backups w\<rparr>))"

definition backup_data :: "string option \<Rightarrow> string option io" where
  "backup_data backup_filename =
     try_except
       (io_bind
          (case backup_filename of
             None \<Rightarrow> io_bind datetime_now (\<lambda>t.
                      io_return (''calorie_data_backup_'' @ strftime_stamp t @ ''.xlsx''))
           | Some name \<Rightarrow> io_return name) (\<lambda>backup_path.
        io_bind (copy2 backup_path) (\<lambda>_.
        io_bind (logger_info ''Backup created'') (\<lambda>_.
        io_return (Some backup_path)))))
       (\<lambda>e. io_bind (logger_error ''Failed to create backup'' e) (\<lambda>_. io_return None))"

section \<open>The weekly summary of the chart builder (visualizer.py)\<close>

text \<open>
  \<^verbatim>\<open>create_weekly_summary_chart\<close> up to the drawing calls: the chart is the table
  \<^verbatim>\<open>weekly_data\<close>. The group key of a row is \<^verbatim>\<open>dt.year\<close>, the calendar year of its date,
  and \<^verbatim>\<open>dt.isocalendar().week\<close>, its ISO week number; a row whose date is NaT has no key
  and \<^verbatim>\<open>groupby\<close> leaves it out. \<^verbatim>\<open>groupby\<close> puts the groups in key order and \<^verbatim>\<open>mean\<close>
  skips NaN.
\<close>

record week_row =
  Year :: int
  Week :: int
  mean_Calories :: "real option"
  mean_Weight :: "real option"
  mean_Protein :: "real option"
  mean_Carbs :: "real option"
  mean_Fat :: "real option"

definition week_key :: "date option \<Rightarrow> (int \<times> int) option" where
  "week_key ts = map_option (\<lambda>dt. (year dt, fst (snd (isocalendar dt)))) ts"

definition groupby_mean :: "((int \<times> int) option \<times> row) list \<Rightarrow> week_row list" where
  "groupby_mean keyed =
     map (\<lambda>k. let g = map snd (filter (\<lambda>(k', r). k' = Some k) keyed)
              in \<lparr>Year = fst k, Week = snd k,
                  mean_Calories = column_mean Calories g,
                  mean_Weight = column_mean Weight g,
                  mean_Protein = column_mean Protein g,
                  mean_Carbs = column_mean Carbs g,
                  mean_Fat = column_mean Fat g\<rparr>)
         (sort (remdups (List.map_filter fst keyed)))"

definition create_weekly_summary_chart :: "parser \<Rightarrow> int \<Rightarrow> week_row list option io" where
  "create_weekly_summary_chart P weeks =
     try_except
       (let days = weeks * 7 in
        io_bind (get_recent_data P days) (\<lambda>df.
          if df = [] then io_return None
          else
            io_bind (io_of (to_datetime_series P (map Date df))) (\<lambda>dates.
              let weekly_data = groupby_mean (zip (map week_key dates) df)
              in if weekly_data = [] then io_return None
                 else io_return (Some weekly_data))))
       (\<lambda>e. io_bind (logger_error ''Failed to create weekly summary chart'' e)
               (\<lambda>_. io_return None))"

section \<open>Vocabulary of the statements\<close>

text \<open>
  What \<^verbatim>\<open>get_date_range_data\<close> returns, as a function of the table it loaded, and the
  exception that its handler catches, if any: the first of the three parser calls that
  raises. The lemma \<open>get_date_range_data_eq\<close> below proves that the method computes them.
\<close>

definition range_rows :: "parser \<Rightarrow> string \<Rightarrow> string \<Rightarrow> frame \<Rightarrow> frame" where
  "range_rows P a b df =
     (if df = [] then []
      else (case (to_datetime_series P (map Date df), P a, P b) of
              (Inr dts, Inr s, Inr e) \<Rightarrow>
                sort_key Date (map fst (filter (\<lambda>(r, dt). ts_le s dt \<and> ts_le dt e) (zip df dts)))
            | _ \<Rightarrow> []))"

definition range_failure :: "parser \<Rightarrow> string \<Rightarrow> string \<Rightarrow> frame \<Rightarrow> exn option" where
  "range_failure P a b df =
     (if df = [] then None
      else (case to_datetime_series P (map Date df) of Inl e \<Rightarrow> Some e
            | Inr _ \<Rightarrow> (case P a of Inl e \<Rightarrow> Some e
               | Inr _ \<Rightarrow> (case P b of Inl e \<Rightarrow> Some e | Inr _ \<Rightarrow> None))))"

text \<open>The log entries of an error that a handler caught, if there was one.\<close>

definition error_entries :: "string \<Rightarrow> exn option \<Rightarrow> log_entry list" where
  "error_entries msg f = (case f of None \<Rightarrow> [] | Some e \<Rightarrow> [Error msg e])"

definition logged :: "string \<Rightarrow> exn option \<Rightarrow> world \<Rightarrow> world" where
  "logged msg f w = w\<lparr>log := log w @ error_entries msg f\<rparr>"

text \<open>The failure of \<^verbatim>\<open>pd.read_excel\<close> in a world, if it fails.\<close>

definition read_failure :: "world \<Rightarrow> exn option" where
  "read_failure w = (if disk w = Corrupt then Some BadFile else None)"

text \<open>What \<^verbatim>\<open>get_recent_data\<close> returns (lemma \<open>get_recent_data_eq\<close>).\<close>

definition recent_rows :: "parser \<Rightarrow> int \<Rightarrow> world \<Rightarrow> frame" where
  "recent_rows P days w =
     (case date_minus_days (date_part (now w)) (days - 1) of
        Inl e \<Rightarrow> []
      | Inr start_date \<Rightarrow>
          range_rows P (strftime_ymd start_date) (strftime_ymd (date_part (now w))) (stored w))"

text \<open>
  The parser raises on a string; a row's date, parsed, lies between two dates; a frame
  is in ascending order of its parsed dates.
\<close>

definition raises :: "parser \<Rightarrow> string \<Rightarrow> bool" where
  "raises P x = isl (P x)"

definition in_range :: "parser \<Rightarrow> date \<Rightarrow> date \<Rightarrow> row \<Rightarrow> bool" where
  "in_range P s e r =
     (case P (Date r) of Inr (Some d) \<Rightarrow> date_le s d \<and> date_le d e | _ \<Rightarrow> False)"

definition calendar_sorted :: "parser \<Rightarrow> frame \<Rightarrow> bool" where
  "calendar_sorted P df =
     sorted_wrt (\<lambda>a b. case (P (Date a), P (Date b)) of
                         (Inr (Some x), Inr (Some y)) \<Rightarrow> date_le x y | _ \<Rightarrow> False) df"

text \<open>
  The trailing window of \<open>days\<close> days: from today minus \<open>days - 1\<close> to today, as
  \<^verbatim>\<open>get_recent_data\<close> formats the two dates and the parser reads them back; there is no
  window when the start is out of the calendar or a bound is not read as a date.
\<close>

definition window_bounds :: "parser \<Rightarrow> int \<Rightarrow> world \<Rightarrow> (date \<times> date) option" where
  "window_bounds P days w =
     (case date_minus_days (date_part (now w)) (days - 1) of
        Inl e \<Rightarrow> None
      | Inr start_date \<Rightarrow>
          (case (P (strftime_ymd start_date), P (strftime_ymd (date_part (now w)))) of
             (Inr (Some s), Inr (Some e)) \<Rightarrow> Some (s, e)
           | _ \<Rightarrow> None))"

subsection \<open>Example stores\<close>

text \<open>All of them have 2024-01-15, noon, as the current time, but \<open>new_year_store\<close>.\<close>

definition unpadded_store :: world where
  "unpadded_store = empty_store\<lparr>disk := Sheet
     [\<lparr>Date = ''2024-1-5'', Calories = Some 1800, Protein = None, Carbs = None, Fat = None,
       Weight = Some 150, Calorie_Goal = None\<rparr>,
      \<lparr>Date = ''2024-1-10'', Calories = Some 2000, Protein = None, Carbs = None, Fat = None,
       Weight = Some 145, Calorie_Goal = None\<rparr>]\<rparr>"

definition iso_store :: world where
  "iso_store = empty_store\<lparr>disk := Sheet
     [\<lparr>Date = ''2024-01-05'', Calories = Some 1800, Protein = None, Carbs = None, Fat = None,
       Weight = Some 145, Calorie_Goal = None\<rparr>,
      \<lparr>Date = ''2024-01-03'', Calories = Some 2100, Protein = None, Carbs = None, Fat = None,
       Weight = None, Calorie_Goal = None\<rparr>,
      \<lparr>Date = ''2024-01-01'', Calories = Some 2000, Protein = None, Carbs = None, Fat = None,
       Weight = Some 150, Calorie_Goal = None\<rparr>]\<rparr>"

definition blank_store :: world where
  "blank_store = empty_store\<lparr>disk := Sheet
     [\<lparr>Date = ''2024-01-10'', Calories = None, Protein = None, Carbs = None, Fat = None,
       Weight = None, Calorie_Goal = None\<rparr>]\<rparr>"

text \<open>A row in the window of the last 30 days, and a row whose date is not a date.\<close>

definition garbage_store :: world where
  "garbage_store = empty_store\<lparr>disk := Sheet
     [\<lparr>Date = ''2024-01-10'', Calories = Some 2000, Protein = None, Carbs = None, Fat = None,
       Weight = Some 150, Calorie_Goal = None\<rparr>,
      \<lparr>Date = ''garbage'', Calories = Some 1, Protein = None, Carbs = None, Fat = None,
       Weight = None, Calorie_Goal = None\<rparr>]\<rparr>"

definition new_year_store :: world where
  "new_year_store =
     \<lparr>disk = Sheet
        [\<lparr>Date = ''2024-12-30'', Calories = Some 2000, Protein = None, Carbs = None, Fat = None,
          Weight = None, Calorie_Goal = None\<rparr>,
         \<lparr>Date = ''2025-01-01'', Calories = Some 1000, Protein = None, Carbs = None, Fat = None,
          Weight = None, Calorie_Goal = None\<rparr>],
      writable = True, backup_writable = True, backups = [], log = [],
      now = \<lparr>date_part = YMD 2025 1 1, hour = 12, minute = 0, second = 0\<rparr>\<rparr>"

text \<open>
  No file yet, in a directory that cannot be written; a damaged file that cannot be
  replaced; a damaged file that can.
\<close>

definition locked_store :: world where
  "locked_store = empty_store\<lparr>disk := Absent, writable := False, backup_writable := False\<rparr>"

definition broken_store :: world where
  "broken_store = empty_store\<lparr>disk := Corrupt, writable := False, backup_writable := False\<rparr>"

definition unreadable_store :: world where
  "unreadable_store = empty_store\<lparr>disk := Corrupt\<rparr>"

section \<open>Basic facts about loading and saving\<close>

lemma reread_eq: "reread = astype_row \<circ> read_row"
  by (rule ext) (simp add: reread_def)

lemma load_data_result: "fst (load_data w) = Inr (stored w)"
  by (cases "disk w")
     (simp_all add: load_data_def try_except_def io_bind_def os_path_exists_def read_excel_def
        io_return_def logger_error_def stored_def reread_eq)

lemma load_data_disk: "disk (snd (load_data w)) = disk w"
  by (cases "disk w")
     (simp_all add: load_data_def try_except_def io_bind_def os_path_exists_def read_excel_def
        io_return_def logger_error_def)

lemma load_data_writable: "writable (snd (load_data w)) = writable w"
  by (cases "disk w")
     (simp_all add: load_data_def try_except_def io_bind_def os_path_exists_def read_excel_def
        io_return_def logger_error_def)

lemma save_data_result: "fst (save_data df w) = Inr (writable w)"
  by (simp add: save_data_def try_except_def io_bind_def to_excel_def io_return_def
        logger_error_def logger_info_def)

lemma save_data_disk: "disk (snd (save_data df w)) = (if writable w then Sheet df else disk w)"
  by (simp add: save_data_def try_except_def io_bind_def to_excel_def io_return_def
        logger_error_def logger_info_def)

lemma save_data_writable: "writable (snd (save_data df w)) = writable w"
  by (simp add: save_data_def try_except_def io_bind_def to_excel_def io_return_def
        logger_error_def logger_info_def)

subsection \<open>What the codec does to a date text\<close>

lemma nan_na: "''nan'' \<in> set na_values"
  by (simp add: na_values_def)

lemma Date_reread: "Date (reread r) = (if Date r \<in> set na_values then ''nan'' else Date r)"
  by (simp add: reread_def astype_row_def read_row_def read_text_def astype_str_def)

lemma reread_fix: "Date r \<notin> set na_values \<or> Date r = ''nan'' \<Longrightarrow> reread r = r"
  by (cases r) (auto simp: reread_def astype_row_def read_row_def read_text_def astype_str_def)

lemma reread_idem: "reread (reread r) = reread r"
  by (rule reread_fix) (simp add: Date_reread)

lemma stored_fixed: "r \<in> set (stored w) \<Longrightarrow> reread r = r"
  by (cases "disk w") (auto simp: stored_def reread_idem)

lemma map_reread_stored: "map reread (stored w) = stored w"
  by (rule map_idI) (rule stored_fixed)

lemma stored_save_data:
  "stored (snd (save_data df w)) = (if writable w then map reread df else stored w)"
  by (simp add: stored_def save_data_disk)

section \<open>Upsert and delete\<close>

lemma load_data_run:
  obtains w' where "load_data w = (Inr (stored w), w')" "disk w' = disk w" "writable w' = writable w"
  using load_data_result [of w] load_data_writable [of w] load_data_disk [of w]
  by (cases "load_data w") auto

lemma save_data_run:
  obtains w' where "save_data df w = (Inr (writable w), w')"
    "disk w' = (if writable w then Sheet df else disk w)" "writable w' = writable w"
  using save_data_result [of df w] save_data_writable [of df w] save_data_disk [of df w]
  by (cases "save_data df w") auto

lemma get_day_data_result: "fst (get_day_data d w) = Inr (find (\<lambda>r. Date r = d) (stored w))"
proof -
  have f: "(case filter (\<lambda>r. Date r = d) xs of [] \<Rightarrow> None | r # _ \<Rightarrow> Some r) = find (\<lambda>r. Date r = d) xs" for xs
    by (induction xs) auto
  obtain w' where l: "load_data w = (Inr (stored w), w')"
    by (rule load_data_run)
  show ?thesis
    using f [of "stored w"]
    by (auto simp: get_day_data_def try_except_def io_bind_def io_return_def l split: list.splits)
qed

lemma first_index_None: "first_index P xs = None \<longleftrightarrow> (\<forall>x\<in>set xs. \<not> P x)"
  by (induction xs) auto

lemma first_index_Some: "first_index P xs = Some i \<Longrightarrow> i < length xs \<and> P (xs ! i) \<and> (\<forall>j<i. \<not> P (xs ! j))"
proof (induction xs arbitrary: i)
  case Nil then show ?case by simp
next
  case (Cons x xs)
  show ?case
  proof (cases "P x")
    case True with Cons.prems show ?thesis by simp
  next
    case False
    with Cons.prems obtain k where k: "first_index P xs = Some k" "i = Suc k" by auto
    from Cons.IH [OF k(1)] False k(2) show ?thesis by (auto simp: less_Suc_eq_0_disj)
  qed
qed

lemma update_day_data_run:
  obtains w' where "update_day_data d u w = (Inr (writable w), w')"
    "disk w' = (if writable w then Sheet (upsert_rows d u (stored w)) else disk w)"
    "writable w' = writable w"
proof -
  obtain w1 where l: "load_data w = (Inr (stored w), w1)" and w1: "writable w1 = writable w" "disk w1 = disk w"
    by (rule load_data_run [of w]) auto
  define df' where "df' = upsert_rows d u (stored w)"
  obtain w2 where s: "save_data df' w1 = (Inr (writable w1), w2)"
     and w2: "disk w2 = (if writable w1 then Sheet df' else disk w1)" "writable w2 = writable w1"
    by (rule save_data_run [of df' w1]) 
  have "update_day_data d u w = save_data df' w1"
    using s by (cases "first_index (\<lambda>r. Date r = d) (stored w)")
       (simp_all add: update_day_data_def try_except_def io_bind_def l df'_def upsert_rows_def)
  with s w1 w2 that show ?thesis by (simp add: df'_def)
qed

lemma delete_day_data_run:
  obtains w' where "delete_day_data d w = (Inr (writable w), w')"
    "disk w' = (if writable w then Sheet (filter (\<lambda>r. Date r \<noteq> d) (stored w)) else disk w)"
    "writable w' = writable w"
proof -
  obtain w1 where l: "load_data w = (Inr (stored w), w1)" and w1: "writable w1 = writable w" "disk w1 = disk w"
    by (rule load_data_run [of w]) auto
  define df' where "df' = filter (\<lambda>r. Date r \<noteq> d) (stored w)"
  obtain w2 where s: "save_data df' w1 = (Inr (writable w1), w2)"
     and w2: "disk w2 = (if writable w1 then Sheet df' else disk w1)" "writable w2 = writable w1"
    by (rule save_data_run [of df' w1]) 
  have "delete_day_data d w = save_data df' w1"
    using s by (simp_all add: delete_day_data_def try_except_def io_bind_def l df'_def)
  with s w1 w2 that show ?thesis by (simp add: df'_def)
qed


lemma Date_apply_updates: "Date (apply_updates u r) = Date r"
  unfolding apply_updates_def by (induction u arbitrary: r) auto

lemma apply_updates_Nil: "apply_updates [] r = r"
  by (simp add: apply_updates_def)

lemma apply_updates_Cons: "apply_updates (x # u) r = apply_updates u (apply_update r x)"
  by (simp add: apply_updates_def)



lemma apply_updates_skip:
  assumes other: "\<And>r k v. k \<noteq> f \<Longrightarrow> g (apply_update r (k, v)) = g r"
    and "f \<notin> fst ` set u"
  shows "g (apply_updates u r) = g r"
  using assms(2)
proof (induction u arbitrary: r)
  case Nil then show ?case by (simp add: apply_updates_Nil)
next
  case (Cons x u)
  obtain k v where x: "x = (k, v)" by (cases x)
  with Cons.prems have k: "k \<noteq> f" and u: "f \<notin> fst ` set u" by auto
  show ?case by (simp del: apply_update.simps add: apply_updates_Cons x Cons.IH [OF u] other [OF k])
qed

lemma apply_updates_add:
  assumes other: "\<And>r k v. k \<noteq> f \<Longrightarrow> g (apply_update r (k, v)) = g r"
    and hit: "\<And>r v. g (apply_update r (f, v)) = Some (current (g r) + v)"
    and "distinct (map fst u)"
  shows "g (apply_updates u r) = add_policy (g r) (supplied f [u])"
  using assms(3)
proof (induction u arbitrary: r)
  case Nil then show ?case
    by (simp add: apply_updates_Nil supplied_def List.map_filter_simps add_policy_def)
next
  case (Cons x u)
  obtain k v where x: "x = (k, v)" by (cases x)
  from Cons.prems x have d: "distinct (map fst u)" and nk: "k \<notin> fst ` set u" by auto
  show ?case
  proof (cases "k = f")
    case True
    with nk have "f \<notin> fst ` set u" by simp
    from apply_updates_skip [of f g, OF other this] show ?thesis using True
      by (simp del: apply_update.simps add: apply_updates_Cons x hit supplied_def List.map_filter_simps add_policy_def)
  next
    case False
    then show ?thesis using Cons.IH [OF d]
      by (simp del: apply_update.simps add: apply_updates_Cons x other supplied_def List.map_filter_simps)
  qed
qed

lemma apply_updates_replace:
  assumes other: "\<And>r k v. k \<noteq> f \<Longrightarrow> g (apply_update r (k, v)) = g r"
    and hit: "\<And>r v. g (apply_update r (f, v)) = Some v"
    and "distinct (map fst u)"
  shows "g (apply_updates u r) = replace_policy (g r) (supplied f [u])"
  using assms(3)
proof (induction u arbitrary: r)
  case Nil then show ?case
    by (simp add: apply_updates_Nil supplied_def List.map_filter_simps replace_policy_def)
next
  case (Cons x u)
  obtain k v where x: "x = (k, v)" by (cases x)
  from Cons.prems x have d: "distinct (map fst u)" and nk: "k \<notin> fst ` set u" by auto
  show ?case
  proof (cases "k = f")
    case True
    with nk have "f \<notin> fst ` set u" by simp
    from apply_updates_skip [of f g, OF other this] show ?thesis using True
      by (simp del: apply_update.simps add: apply_updates_Cons x hit supplied_def List.map_filter_simps replace_policy_def)
  next
    case False
    then show ?thesis using Cons.IH [OF d]
      by (simp del: apply_update.simps add: apply_updates_Cons x other supplied_def List.map_filter_simps)
  qed
qed

lemma supplied_Cons: "supplied f (u # us) = supplied f [u] @ supplied f us"
  by (simp add: supplied_def List.map_filter_simps split: option.splits)

lemma supplied_single: "supplied f [u] = (case map_of u f of None \<Rightarrow> [] | Some v \<Rightarrow> [v])"
  by (simp add: supplied_def List.map_filter_simps split: option.splits)

lemma add_policy_append: "add_policy (add_policy c xs) ys = add_policy c (xs @ ys)"
  by (cases c) (auto simp: add_policy_def current_def)

lemma replace_policy_append: "replace_policy (replace_policy c xs) ys = replace_policy c (xs @ ys)"
  by (auto simp: replace_policy_def)

lemma fold_add:
  assumes step: "\<And>u r. distinct (map fst u) \<Longrightarrow> g (apply_updates u r) = add_policy (g r) (supplied f [u])"
    and "\<forall>u\<in>set us. distinct (map fst u)"
  shows "g (fold apply_updates us r) = add_policy (g r) (supplied f us)"
  using assms(2)
proof (induction us arbitrary: r)
  case Nil then show ?case by (simp add: supplied_def List.map_filter_simps add_policy_def)
next
  case (Cons u us)
  then show ?case
    by (simp add: step add_policy_append supplied_Cons [of f u us])
qed

lemma fold_replace:
  assumes step: "\<And>u r. distinct (map fst u) \<Longrightarrow> g (apply_updates u r) = replace_policy (g r) (supplied f [u])"
    and "\<forall>u\<in>set us. distinct (map fst u)"
  shows "g (fold apply_updates us r) = replace_policy (g r) (supplied f us)"
  using assms(2)
proof (induction us arbitrary: r)
  case Nil then show ?case by (simp add: supplied_def List.map_filter_simps replace_policy_def)
next
  case (Cons u us)
  then show ?case
    by (simp add: step replace_policy_append supplied_Cons [of f u us])
qed

lemma find_first_index:
  "first_index P xs = Some i \<Longrightarrow> find P xs = Some (xs ! i)"
  by (induction xs arbitrary: i) (auto split: if_splits)

lemma find_update_first:
  "first_index P xs = Some i \<Longrightarrow> P y \<Longrightarrow> find P (xs[i := y]) = Some y"
  by (induction xs arbitrary: i) (auto split: if_splits)

lemma find_append_new:
  "first_index P xs = None \<Longrightarrow> P y \<Longrightarrow> find P (xs @ [y]) = Some y"
  by (induction xs) (auto split: if_splits)

lemma find_None_first_index: "first_index P xs = None \<Longrightarrow> find P xs = None"
  by (induction xs) (auto split: if_splits)

lemma find_upsert_rows:
  "find (\<lambda>r. Date r = d) (upsert_rows d u df) = Some (apply_updates u (base_row d df))"
proof (cases "first_index (\<lambda>r. Date r = d) df")
  case None
  then show ?thesis
    by (simp add: upsert_rows_def base_row_def find_None_first_index find_append_new
        Date_apply_updates new_row_def)
next
  case (Some i)
  from first_index_Some [OF Some] have "Date (df ! i) = d" by simp
  then show ?thesis using Some
    by (simp add: upsert_rows_def base_row_def find_first_index [OF Some]
        find_update_first [OF Some] Date_apply_updates)
qed

lemma Dates_upsert_rows:
  "map Date (upsert_rows d u df) =
     (if d \<in> set (map Date df) then map Date df else map Date df @ [d])"
proof (cases "first_index (\<lambda>r. Date r = d) df")
  case None
  then have "d \<notin> set (map Date df)" by (auto simp: first_index_None)
  with None show ?thesis
    by (simp add: upsert_rows_def Date_apply_updates new_row_def)
next
  case (Some i)
  from first_index_Some [OF Some] have i: "i < length df" "Date (df ! i) = d" by simp_all
  then have "d \<in> set (map Date df)" by (metis length_map nth_map nth_mem)
  moreover have "map Date (df[i := apply_updates u (df ! i)]) = map Date df"
    using i by (simp add: map_update Date_apply_updates list_update_same_conv)
  ultimately show ?thesis using Some by (simp add: upsert_rows_def)
qed

lemma reread_upsert_rows:
  assumes "\<forall>r\<in>set df. reread r = r" and "d \<notin> set na_values"
  shows "map reread (upsert_rows d u df) = upsert_rows d u df"
proof (rule map_idI)
  fix r assume r: "r \<in> set (upsert_rows d u df)"
  then have "Date r \<in> set (map Date (upsert_rows d u df))" by simp
  then have "Date r \<in> set (map Date df) \<or> Date r = d"
    by (auto simp: Dates_upsert_rows split: if_splits)
  then show "reread r = r"
  proof
    assume "Date r \<in> set (map Date df)"
    then obtain x where x: "x \<in> set df" "Date x = Date r" by auto
    with assms(1) have "reread x = x" by simp
    then have "Date x \<notin> set na_values \<or> Date x = ''nan''"
      by (metis Date_reread)
    with x(2) show ?thesis by (simp add: reread_fix)
  next
    assume "Date r = d"
    with assms(2) show ?thesis by (simp add: reread_fix)
  qed
qed

lemma stored_update_day_data:
  "writable w \<Longrightarrow> d \<notin> set na_values \<Longrightarrow>
   stored (snd (update_day_data d u w)) = upsert_rows d u (stored w)"
proof -
  assume w: "writable w" and d: "d \<notin> set na_values"
  have "stored (snd (update_day_data d u w)) = map reread (upsert_rows d u (stored w))"
    by (rule update_day_data_run [of d u w]) (simp add: stored_def w)
  also have "\<dots> = upsert_rows d u (stored w)"
    by (rule reread_upsert_rows) (simp_all add: stored_fixed d)
  finally show ?thesis .
qed

lemma writable_update_day_data: "writable (snd (update_day_data d u w)) = writable w"
  by (rule update_day_data_run [of d u w]) simp

lemma find_upsert_all:
  "writable w \<Longrightarrow> d \<notin> set na_values \<Longrightarrow> us \<noteq> [] \<Longrightarrow>
   find (\<lambda>r. Date r = d) (stored (upsert_all d us w)) =
     Some (fold apply_updates us (base_row d (stored w)))"
proof (induction us arbitrary: w)
  case Nil then show ?case by simp
next
  case (Cons u us)
  let ?w1 = "snd (update_day_data d u w)"
  have w1: "writable ?w1" using Cons.prems by (simp add: writable_update_day_data)
  have f1: "find (\<lambda>r. Date r = d) (stored ?w1) = Some (apply_updates u (base_row d (stored w)))"
    using Cons.prems by (simp add: stored_update_day_data find_upsert_rows)
  show ?case
  proof (cases "us = []")
    case True then show ?thesis using f1 by simp
  next
    case False
    have "base_row d (stored ?w1) = apply_updates u (base_row d (stored w))"
      using f1 by (simp add: base_row_def)
    with Cons.IH [OF w1 Cons.prems(2) False] show ?thesis by simp
  qed
qed

text \<open>
  Claim C1. After any non-empty sequence of upserts for one date on a store that can be
  written, the stored row of that date has, in calories, protein, carbs and fat, the
  value it had before (0 for a missing value) plus every value supplied for the field,
  and in weight and goal the value supplied last; a field that was never supplied keeps
  its value. Each call's updates are a dict, so its keys are distinct. The date is a
  text that the spreadsheet gives back as it was written: none of the markers that
  pandas reads as a missing cell (the empty string, NA, nan, null and the like), which
  no calendar date is.
\<close>

theorem upsert_field_policy:
  assumes "writable w" and "us \<noteq> []" and "\<forall>u\<in>set us. distinct (map fst u)"
    and "d \<notin> set na_values"
  shows "\<exists>r. fst (get_day_data d (upsert_all d us w)) = Inr (Some r)
    \<and> Calories r = add_policy (Calories (base_row d (stored w))) (supplied ''calories'' us)
    \<and> Protein r = add_policy (Protein (base_row d (stored w))) (supplied ''protein'' us)
    \<and> Carbs r = add_policy (Carbs (base_row d (stored w))) (supplied ''carbs'' us)
    \<and> Fat r = add_policy (Fat (base_row d (stored w))) (supplied ''fat'' us)
    \<and> Weight r = replace_policy (Weight (base_row d (stored w))) (supplied ''weight'' us)
    \<and> Calorie_Goal r = replace_policy (Calorie_Goal (base_row d (stored w))) (supplied ''goal'' us)"
proof -
  let ?b = "base_row d (stored w)"
  let ?r = "fold apply_updates us ?b"
  have g: "fst (get_day_data d (upsert_all d us w)) = Inr (Some ?r)"
    using assms(1,2,4) by (simp add: get_day_data_result find_upsert_all)
  have c: "Calories ?r = add_policy (Calories ?b) (supplied ''calories'' us)"
    by (rule fold_add [OF apply_updates_add [of "''calories''" Calories] assms(3)]) simp_all
  have p: "Protein ?r = add_policy (Protein ?b) (supplied ''protein'' us)"
    by (rule fold_add [OF apply_updates_add [of "''protein''" Protein] assms(3)]) simp_all
  have cb: "Carbs ?r = add_policy (Carbs ?b) (supplied ''carbs'' us)"
    by (rule fold_add [OF apply_updates_add [of "''carbs''" Carbs] assms(3)]) simp_all
  have f: "Fat ?r = add_policy (Fat ?b) (supplied ''fat'' us)"
    by (rule fold_add [OF apply_updates_add [of "''fat''" Fat] assms(3)]) simp_all
  have wt: "Weight ?r = replace_policy (Weight ?b) (supplied ''weight'' us)"
    by (rule fold_replace [OF apply_updates_replace [of "''weight''" Weight] assms(3)]) simp_all
  have gl: "Calorie_Goal ?r = replace_policy (Calorie_Goal ?b) (supplied ''goal'' us)"
    by (rule fold_replace [OF apply_updates_replace [of "''goal''" Calorie_Goal] assms(3)]) simp_all
  from g c p cb f wt gl show ?thesis by blast
qed

theorem upsert_field_policy_witness:
  "writable empty_store \<and> ''2024-01-15'' \<notin> set na_values
   \<and> (\<exists>r. fst (get_day_data ''2024-01-15''
          (upsert_all ''2024-01-15'' [[(''calories'', 500)], [(''calories'', 300)]] empty_store))
        = Inr (Some r) \<and> Calories r = Some 800)
   \<and> (\<exists>r. fst (get_day_data ''2024-01-15''
          (upsert_all ''2024-01-15'' [[(''weight'', 150)], [(''weight'', 148)]] empty_store))
        = Inr (Some r) \<and> Weight r = Some 148)"
proof -
  have w: "writable empty_store" by (simp add: empty_store_def)
  have k: "''2024-01-15'' \<notin> set na_values" by (simp add: na_values_def)
  have b: "base_row ''2024-01-15'' (stored empty_store) = new_row ''2024-01-15''"
    by (simp add: base_row_def stored_def empty_store_def)
  have n1: "[[(''calories'', 500::real)], [(''calories'', 300)]] \<noteq> []" by simp
  have n2: "[[(''weight'', 150::real)], [(''weight'', 148)]] \<noteq> []" by simp
  have d1: "\<forall>u\<in>set [[(''calories'', 500::real)], [(''calories'', 300)]]. distinct (map fst u)"
    by simp
  have d2: "\<forall>u\<in>set [[(''weight'', 150::real)], [(''weight'', 148)]]. distinct (map fst u)"
    by simp
  have s1: "add_policy (Some 0) (supplied ''calories'' [[(''calories'', 500)], [(''calories'', 300)]])
      = Some 800"
    by (simp add: add_policy_def supplied_def List.map_filter_simps current_def)
  have s2: "replace_policy (Some 0) (supplied ''weight'' [[(''weight'', 150)], [(''weight'', 148)]])
      = Some 148"
    by (simp add: replace_policy_def supplied_def List.map_filter_simps)
  from upsert_field_policy [OF w n1 d1 k]
  obtain r1 where r1: "fst (get_day_data ''2024-01-15''
          (upsert_all ''2024-01-15'' [[(''calories'', 500)], [(''calories'', 300)]] empty_store))
        = Inr (Some r1)" "Calories r1 = Some 800"
    unfolding b using s1 by (auto simp: new_row_def)
  from upsert_field_policy [OF w n2 d2 k]
  obtain r2 where r2: "fst (get_day_data ''2024-01-15''
          (upsert_all ''2024-01-15'' [[(''weight'', 150)], [(''weight'', 148)]] empty_store))
        = Inr (Some r2)" "Weight r2 = Some 148"
    unfolding b using s2 by (auto simp: new_row_def)
  from w k r1 r2 show ?thesis by blast
qed

text \<open>
  Claim C2 says that the row created for a new date has weight and calorie goal absent.
  The code gives them the number 0: after one upsert of calories only on the empty
  store, the stored row has \<open>Weight = Some 0\<close> and \<open>Calorie_Goal = Some 0\<close>.
\<close>

theorem new_row_weight_goal_zero:
  "fst (get_day_data ''2024-01-15''
         (snd (update_day_data ''2024-01-15'' [(''calories'', 500)] empty_store)))
   = Inr (Some \<lparr>Date = ''2024-01-15'', Calories = Some 500, Protein = Some 0, Carbs = Some 0,
                 Fat = Some 0, Weight = Some 0, Calorie_Goal = Some 0\<rparr>)"
proof -
  have w: "writable empty_store" by (simp add: empty_store_def)
  have k: "''2024-01-15'' \<notin> set na_values" by (simp add: na_values_def)
  have e: "stored empty_store = []" by (simp add: stored_def empty_store_def)
  have "stored (snd (update_day_data ''2024-01-15'' [(''calories'', 500)] empty_store))
      = upsert_rows ''2024-01-15'' [(''calories'', 500)] []"
    using stored_update_day_data [OF w k] e by simp
  also have "\<dots> = [\<lparr>Date = ''2024-01-15'', Calories = Some 500, Protein = Some 0, Carbs = Some 0,
           Fat = Some 0, Weight = Some 0, Calorie_Goal = Some 0\<rparr>]"
    by (simp add: upsert_rows_def apply_updates_def new_row_def current_def)
  finally show ?thesis by (simp add: get_day_data_result)
qed

lemma stored_unwritable:
  "\<not> writable w \<Longrightarrow> stored (snd (update_day_data d u w)) = stored w"
  "\<not> writable w \<Longrightarrow> stored (snd (delete_day_data d w)) = stored w"
  by (rule update_day_data_run [of d u w], simp add: stored_def)
     (rule delete_day_data_run [of d w], simp add: stored_def)

lemma stored_delete_day_data:
  "writable w \<Longrightarrow> stored (snd (delete_day_data d w)) = filter (\<lambda>r. Date r \<noteq> d) (stored w)"
proof -
  assume w: "writable w"
  have "stored (snd (delete_day_data d w)) = map reread (filter (\<lambda>r. Date r \<noteq> d) (stored w))"
    by (rule delete_day_data_run [of d w]) (simp add: stored_def w)
  also have "\<dots> = filter (\<lambda>r. Date r \<noteq> d) (stored w)"
    by (rule map_idI) (auto intro: stored_fixed)
  finally show ?thesis .
qed

text \<open>
  Claim C6. If the table has at most one row per date, it still has after an upsert and
  after a delete, whether or not the write succeeds. An upsert that is written adds a
  row, at the end, only when no row has the date, and otherwise keeps the dates as
  they are; a delete that is written leaves no row of the date. The date of an upsert
  is a text that the spreadsheet gives back as it was written (none of pandas' markers
  of a missing cell, which no calendar date is); a delete may name any text.
\<close>

theorem one_row_per_date_preserved:
  assumes "distinct (map Date (stored w))"
  shows "(d \<notin> set na_values \<longrightarrow>
           distinct (map Date (stored (snd (update_day_data d u w))))
           \<and> (writable w \<longrightarrow>
                map Date (stored (snd (update_day_data d u w))) =
                  (if d \<in> set (map Date (stored w)) then map Date (stored w)
                   else map Date (stored w) @ [d])))
    \<and> distinct (map Date (stored (snd (delete_day_data d w))))
    \<and> (writable w \<longrightarrow> d \<notin> set (map Date (stored (snd (delete_day_data d w)))))"
proof (cases "writable w")
  case True
  have u: "d \<notin> set na_values \<longrightarrow>
           distinct (map Date (stored (snd (update_day_data d u w))))
           \<and> map Date (stored (snd (update_day_data d u w))) =
                  (if d \<in> set (map Date (stored w)) then map Date (stored w)
                   else map Date (stored w) @ [d])"
    using assms True by (simp add: stored_update_day_data Dates_upsert_rows)
  have sd: "stored (snd (delete_day_data d w)) = filter (\<lambda>r. Date r \<noteq> d) (stored w)"
    using True by (rule stored_delete_day_data)
  have "distinct (map Date (filter (\<lambda>r. Date r \<noteq> d) (stored w)))"
    using assms by (simp add: distinct_map_filter)
  moreover have "d \<notin> set (map Date (filter (\<lambda>r. Date r \<noteq> d) (stored w)))"
    by auto
  ultimately have "distinct (map Date (stored (snd (delete_day_data d w))))"
    and "d \<notin> set (map Date (stored (snd (delete_day_data d w))))"
    unfolding sd by blast+
  with u True show ?thesis by blast
next
  case False
  with assms show ?thesis by (simp add: stored_unwritable)
qed

theorem one_row_per_date_preserved_witness:
  "distinct (map Date (stored iso_store)) \<and> writable iso_store
   \<and> ''2024-01-03'' \<notin> set na_values \<and> ''2024-02-01'' \<notin> set na_values
   \<and> map Date (stored (snd (update_day_data ''2024-01-03'' [(''calories'', 100)] iso_store)))
       = [''2024-01-05'', ''2024-01-03'', ''2024-01-01'']
   \<and> map Date (stored (snd (update_day_data ''2024-02-01'' [(''calories'', 100)] iso_store)))
       = [''2024-01-05'', ''2024-01-03'', ''2024-01-01'', ''2024-02-01'']
   \<and> distinct (map Date (stored (snd (delete_day_data ''2024-01-03'' iso_store))))
   \<and> ''2024-01-03'' \<notin> set (map Date (stored (snd (delete_day_data ''2024-01-03'' iso_store))))"
proof -
  have m: "map Date (stored iso_store) = [''2024-01-05'', ''2024-01-03'', ''2024-01-01'']"
    by code_simp
  have d: "distinct (map Date (stored iso_store))" unfolding m by simp
  have w: "writable iso_store" by (simp add: iso_store_def empty_store_def)
  have k1: "''2024-01-03'' \<notin> set na_values" and k2: "''2024-02-01'' \<notin> set na_values"
    by (simp_all add: na_values_def)
  from one_row_per_date_preserved [OF d, of "''2024-01-03''" "[(''calories'', 100)]"] w k1
  have a: "map Date (stored (snd (update_day_data ''2024-01-03'' [(''calories'', 100)] iso_store)))
       = [''2024-01-05'', ''2024-01-03'', ''2024-01-01'']"
    and c: "distinct (map Date (stored (snd (delete_day_data ''2024-01-03'' iso_store))))"
    and e: "''2024-01-03'' \<notin> set (map Date (stored (snd (delete_day_data ''2024-01-03'' iso_store))))"
    unfolding m by simp_all
  from one_row_per_date_preserved [OF d, of "''2024-02-01''" "[(''calories'', 100)]"] w k2
  have b: "map Date (stored (snd (update_day_data ''2024-02-01'' [(''calories'', 100)] iso_store)))
       = [''2024-01-05'', ''2024-01-03'', ''2024-01-01'', ''2024-02-01'']"
    unfolding m by simp
  from d w k1 k2 a b c e show ?thesis by blast
qed

text \<open>
  A date text that is one of pandas' markers is outside these statements: the row
  written for \<^verbatim>\<open>NA\<close> is read back with the date \<^verbatim>\<open>nan\<close>, so that a second upsert of \<^verbatim>\<open>NA\<close>
  finds no row and appends another, and the lookup of \<^verbatim>\<open>NA\<close> finds nothing.
\<close>

lemma marker_date_is_read_back_as_nan:
  "stored (snd (update_day_data ''NA'' [(''calories'', 500)]
             (snd (update_day_data ''NA'' [(''calories'', 500)] empty_store)))) =
     [\<lparr>Date = ''nan'', Calories = Some 500, Protein = Some 0, Carbs = Some 0, Fat = Some 0,
       Weight = Some 0, Calorie_Goal = Some 0\<rparr>,
      \<lparr>Date = ''nan'', Calories = Some 500, Protein = Some 0, Carbs = Some 0, Fat = Some 0,
       Weight = Some 0, Calorie_Goal = Some 0\<rparr>]
   \<and> fst (get_day_data ''NA''
         (snd (update_day_data ''NA'' [(''calories'', 500)]
             (snd (update_day_data ''NA'' [(''calories'', 500)] empty_store))))) = Inr None"
  by code_simp

lemma load_then_save_run:
  obtains w' where "io_bind load_data save_data w = (Inr (writable w), w')"
    "disk w' = (if writable w then Sheet (stored w) else disk w)"
proof -
  obtain w1 where l: "load_data w = (Inr (stored w), w1)"
    and w1: "writable w1 = writable w" "disk w1 = disk w"
    by (rule load_data_run [of w]) auto
  obtain w2 where s: "save_data (stored w) w1 = (Inr (writable w1), w2)"
    and w2: "disk w2 = (if writable w1 then Sheet (stored w) else disk w1)"
    by (rule save_data_run [of "stored w" w1])
  have "io_bind load_data save_data w = save_data (stored w) w1"
    by (simp add: io_bind_def l)
  with s w1 w2 that show ?thesis by simp
qed

lemma stored_Sheet_stored: "disk w' = Sheet (stored w) \<Longrightarrow> stored w' = stored w"
  by (simp add: stored_def [of w'] map_reread_stored)

lemma stored_of_kept_sheet:
  assumes "disk w = Sheet df"
    and "list_all (\<lambda>r. Date r \<notin> set na_values \<or> Date r = ''nan'') df"
  shows "stored w = df"
proof -
  have "map reread df = df"
    using assms(2) by (intro map_idI reread_fix) (simp add: list_all_iff)
  with assms(1) show ?thesis by (simp add: stored_def)
qed

text \<open>
  Claim C7. Saving what was just loaded leaves the table as it was: a later load returns
  the same rows with the same values in every case, and when the file holds a sheet
  whose date texts the spreadsheet gives back as written, the file holds the same sheet
  afterwards.
\<close>

theorem save_load_roundtrip:
  "fst (load_data (snd (io_bind load_data save_data w))) = fst (load_data w)
   \<and> (\<forall>df. disk w = Sheet df \<longrightarrow>
         list_all (\<lambda>r. Date r \<notin> set na_values \<or> Date r = ''nan'') df \<longrightarrow>
         disk (snd (io_bind load_data save_data w)) = Sheet df)"
proof -
  obtain w' where r: "io_bind load_data save_data w = (Inr (writable w), w')"
    and d: "disk w' = (if writable w then Sheet (stored w) else disk w)"
    by (rule load_then_save_run [of w])
  have "stored w' = stored w"
  proof (cases "writable w")
    case True
    with d show ?thesis by (simp add: stored_Sheet_stored)
  next
    case False
    with d show ?thesis by (simp add: stored_def)
  qed
  moreover have "\<forall>df. disk w = Sheet df \<longrightarrow>
         list_all (\<lambda>r. Date r \<notin> set na_values \<or> Date r = ''nan'') df \<longrightarrow> disk w' = Sheet df"
    using d by (auto simp: stored_of_kept_sheet)
  ultimately show ?thesis by (simp add: r load_data_result)
qed

theorem save_load_roundtrip_witness:
  "disk (empty_store\<lparr>disk := Sheet [new_row ''2024-01-15'']\<rparr>) = Sheet [new_row ''2024-01-15'']
   \<and> list_all (\<lambda>r. Date r \<notin> set na_values \<or> Date r = ''nan'') [new_row ''2024-01-15'']
   \<and> disk (snd (io_bind load_data save_data (empty_store\<lparr>disk := Sheet [new_row ''2024-01-15'']\<rparr>)))
       = Sheet [new_row ''2024-01-15'']"
proof -
  have k: "list_all (\<lambda>r. Date r \<notin> set na_values \<or> Date r = ''nan'') [new_row ''2024-01-15'']"
    by (simp add: new_row_def na_values_def)
  from save_load_roundtrip [of "empty_store\<lparr>disk := Sheet [new_row ''2024-01-15'']\<rparr>"] k
  show ?thesis by simp
qed

text \<open>
  Claim C8. Deleting a date that has no row, on a store that can be written, returns
  True and leaves the table unchanged: the same rows are loaded afterwards, and a file
  that held a sheet whose date texts the spreadsheet gives back as written holds the
  same sheet.
\<close>

theorem delete_absent_date:
  assumes "d \<notin> set (map Date (stored w))" and "writable w"
  shows "fst (delete_day_data d w) = Inr True
    \<and> fst (load_data (snd (delete_day_data d w))) = fst (load_data w)
    \<and> (\<forall>df. disk w = Sheet df \<longrightarrow>
          list_all (\<lambda>r. Date r \<notin> set na_values \<or> Date r = ''nan'') df \<longrightarrow>
          disk (snd (delete_day_data d w)) = Sheet df)"
proof -
  obtain w' where r: "delete_day_data d w = (Inr (writable w), w')"
    and d: "disk w' = (if writable w then Sheet (filter (\<lambda>r. Date r \<noteq> d) (stored w)) else disk w)"
    by (rule delete_day_data_run [of d w])
  have "filter (\<lambda>r. Date r \<noteq> d) (stored w) = stored w"
    using assms(1) by (auto simp: filter_id_conv)
  with d assms(2) have d': "disk w' = Sheet (stored w)" by simp
  then have "stored w' = stored w" by (rule stored_Sheet_stored)
  moreover have "\<forall>df. disk w = Sheet df \<longrightarrow>
          list_all (\<lambda>r. Date r \<notin> set na_values \<or> Date r = ''nan'') df \<longrightarrow> disk w' = Sheet df"
    using d' by (auto simp: stored_of_kept_sheet)
  ultimately show ?thesis using assms(2) by (simp add: r load_data_result)
qed

theorem delete_absent_date_witness:
  "''2024-02-01'' \<notin> set (map Date (stored (empty_store\<lparr>disk := Sheet [new_row ''2024-01-15'']\<rparr>)))
   \<and> writable (empty_store\<lparr>disk := Sheet [new_row ''2024-01-15'']\<rparr>)
   \<and> fst (delete_day_data ''2024-02-01'' (empty_store\<lparr>disk := Sheet [new_row ''2024-01-15'']\<rparr>))
       = Inr True
   \<and> disk (snd (delete_day_data ''2024-02-01'' (empty_store\<lparr>disk := Sheet [new_row ''2024-01-15'']\<rparr>)))
       = Sheet [new_row ''2024-01-15'']"
proof -
  let ?w = "empty_store\<lparr>disk := Sheet [new_row ''2024-01-15'']\<rparr>"
  have k: "list_all (\<lambda>r. Date r \<notin> set na_values \<or> Date r = ''nan'') [new_row ''2024-01-15'']"
    by (simp add: new_row_def na_values_def)
  have a: "''2024-02-01'' \<notin> set (map Date (stored ?w))"
    by (simp add: stored_of_kept_sheet [OF _ k] new_row_def)
  have b: "writable ?w" by (simp add: empty_store_def)
  from delete_absent_date [OF a b] a b k show ?thesis by simp
qed

section \<open>What each method computes\<close>

lemma load_data_eq:
  "load_data w = (Inr (stored w), logged ''Failed to load data'' (read_failure w) w)"
  by (cases "disk w")
     (simp_all add: load_data_def try_except_def io_bind_def os_path_exists_def read_excel_def
        io_return_def logger_error_def stored_def logged_def read_failure_def error_entries_def
        reread_eq)

lemma read_failure_stored: "read_failure w \<noteq> None \<Longrightarrow> stored w = []"
  by (simp add: read_failure_def stored_def split: if_splits)

lemma save_data_eq:
  "save_data df w =
     (if writable w then (Inr True, w\<lparr>disk := Sheet df, log := log w @ [Info ''Data saved successfully'']\<rparr>)
      else (Inr False, w\<lparr>log := log w @ [Error ''Failed to save data'' OSError]\<rparr>))"
  by (simp add: save_data_def try_except_def io_bind_def to_excel_def io_return_def
        logger_error_def logger_info_def)

lemma get_date_range_data_eq:
  "get_date_range_data P a b w =
     (Inr (range_rows P a b (stored w)),
      logged ''Failed to get date range data'' (range_failure P a b (stored w)) (snd (load_data w)))"
  by (simp add: get_date_range_data_def try_except_def io_bind_def io_return_def io_of_def
        load_data_eq range_rows_def range_failure_def logged_def logger_error_def
        error_entries_def split: sum.splits)

lemma now_logged: "now (logged m f w) = now w"
  by (simp add: logged_def)

lemma disk_logged: "disk (logged m f w) = disk w"
  by (simp add: logged_def)

lemma writable_logged: "writable (logged m f w) = writable w"
  by (simp add: logged_def)

lemma log_logged: "log (logged m f w) = log w @ error_entries m f"
  by (simp add: logged_def)

lemma stored_logged: "stored (logged m f w) = stored w"
  by (simp add: stored_def disk_logged)

lemma get_recent_data_eq:
  "get_recent_data P days w =
     (Inr (recent_rows P days w),
      case date_minus_days (date_part (now w)) (days - 1) of
        Inl e \<Rightarrow> w\<lparr>log := log w @ [Error ''Failed to get recent data'' e]\<rparr>
      | Inr start_date \<Rightarrow>
          snd (get_date_range_data P (strftime_ymd start_date) (strftime_ymd (date_part (now w))) w))"
  by (simp add: get_recent_data_def try_except_def io_bind_def io_return_def io_of_def
        datetime_now_def get_date_range_data_eq recent_rows_def logger_error_def Let_def
        split: sum.splits)

lemma get_summary_stats_eq:
  "get_summary_stats P days w =
     (Inr (if recent_rows P days w = [] then None else Some (summary_of (recent_rows P days w))),
      snd (get_recent_data P days w))"
  by (simp add: get_summary_stats_def try_except_def io_bind_def io_return_def
        get_recent_data_eq)

lemma update_day_data_eq:
  "update_day_data d u w = save_data (upsert_rows d u (stored w)) (snd (load_data w))"
  by (cases "first_index (\<lambda>r. Date r = d) (stored w)")
     (simp_all add: update_day_data_def try_except_def io_bind_def load_data_eq save_data_eq
        upsert_rows_def)

lemma delete_day_data_eq:
  "delete_day_data d w = save_data (filter (\<lambda>r. Date r \<noteq> d) (stored w)) (snd (load_data w))"
  by (simp add: delete_day_data_def try_except_def io_bind_def load_data_eq save_data_eq)

lemma get_day_data_eq:
  "get_day_data d w = (Inr (find (\<lambda>r. Date r = d) (stored w)), snd (load_data w))"
proof -
  have f: "(case filter (\<lambda>r. Date r = d) xs of [] \<Rightarrow> None | r # _ \<Rightarrow> Some r)
      = find (\<lambda>r. Date r = d) xs" for xs :: frame
    by (induction xs) auto
  show ?thesis using f [of "stored w"]
    by (simp add: get_day_data_def try_except_def io_bind_def io_return_def load_data_eq
        split: list.splits)
qed

lemma backup_data_eq:
  "backup_data n w =
     (let path = (case n of None \<Rightarrow> ''calorie_data_backup_'' @ strftime_stamp (now w) @ ''.xlsx''
                  | Some name \<Rightarrow> name)
      in if disk w = Absent \<or> \<not> backup_writable w
         then (Inr None, w\<lparr>log := log w @ [Error ''Failed to create backup'' OSError]\<rparr>)
         else (Inr (Some path),
               w\<lparr>backups := (path, disk w) # backups w, log := log w @ [Info ''Backup created'']\<rparr>))"
  by (cases n)
     (simp_all add: backup_data_def try_except_def io_bind_def io_return_def datetime_now_def
        copy2_def logger_info_def logger_error_def Let_def)

lemma ensure_data_file_exists_eq:
  "ensure_data_file_exists w =
     (if disk w \<noteq> Absent then (Inr (), w)
      else if writable w then (Inr (), w\<lparr>disk := Sheet [], log := log w @ [Info ''Created new data file'']\<rparr>)
      else (Inl OSError, w\<lparr>log := log w @ [Error ''Failed to create data file'' OSError]\<rparr>))"
  by (simp add: ensure_data_file_exists_def try_except_def io_bind_def io_return_def io_raise_def
        os_path_exists_def to_excel_def logger_info_def logger_error_def)

subsection \<open>The rows of a range\<close>

lemma series_parses:
  "\<not> list_ex (raises P) xs \<Longrightarrow> to_datetime_series P xs = Inr (map (\<lambda>x. projr (P x)) xs)"
  by (induction xs) (auto simp: raises_def split: sum.splits)

lemma series_fails:
  "list_ex (raises P) xs \<Longrightarrow> \<exists>e. to_datetime_series P xs = Inl e"
  by (induction xs) (auto simp: raises_def split: sum.splits)

lemma filter_zip_map:
  "map fst (filter (\<lambda>(r, dt). Q dt) (zip df (map g df))) = filter (\<lambda>r. Q (g r)) df"
  by (induction df) auto

lemma sorted_range_rows: "sorted (map Date (range_rows P a b df))"
  by (simp add: range_rows_def split: sum.splits)

lemma in_range_ts:
  "\<not> raises P (Date r) \<Longrightarrow>
   (ts_le (Some s) (projr (P (Date r))) \<and> ts_le (projr (P (Date r))) (Some e)) = in_range P s e r"
  by (cases "P (Date r)") (auto simp: raises_def in_range_def ts_le_def split: option.splits)

lemma range_rows_parsed:
  assumes "\<not> list_ex (\<lambda>r. raises P (Date r)) df" and "P a = Inr (Some s)" and "P b = Inr (Some e)"
  shows "mset (range_rows P a b df) = mset (filter (in_range P s e) df)"
proof (cases "df = []")
  case True then show ?thesis by (simp add: range_rows_def)
next
  case False
  have p: "\<not> list_ex (raises P) (map Date df)" using assms(1) by (simp add: list_ex_iff)
  have f: "filter (\<lambda>r. ts_le (Some s) (projr (P (Date r))) \<and> ts_le (projr (P (Date r))) (Some e)) df
         = filter (in_range P s e) df"
    using assms(1) by (intro filter_cong) (auto simp: in_range_ts list_ex_iff)
  have "map fst (filter (\<lambda>(r, dt). ts_le (Some s) dt \<and> ts_le dt (Some e))
                   (zip df (map (\<lambda>r. projr (P (Date r))) df)))
        = filter (in_range P s e) df"
    using filter_zip_map [of "\<lambda>dt. ts_le (Some s) dt \<and> ts_le dt (Some e)" df "\<lambda>r. projr (P (Date r))"] f
    by simp
  then show ?thesis using False assms(2,3)
    by (simp add: range_rows_def series_parses [OF p] comp_def)
qed

lemma range_rows_raises:
  "list_ex (\<lambda>r. raises P (Date r)) df \<Longrightarrow> range_rows P a b df = []"
proof -
  assume "list_ex (\<lambda>r. raises P (Date r)) df"
  then have "list_ex (raises P) (map Date df)" by (simp add: list_ex_iff)
  from series_fails [OF this] obtain e where "to_datetime_series P (map Date df) = Inl e" ..
  then show ?thesis by (simp add: range_rows_def)
qed

lemma ts_le_NaT: "ts_le None x = False" "ts_le x None = False"
  by (cases x; simp add: ts_le_def)+

lemma range_rows_NaT_bound:
  "P a = Inr None \<Longrightarrow> range_rows P a b df = []"
  "P b = Inr None \<Longrightarrow> range_rows P a b df = []"
  by (simp_all add: range_rows_def ts_le_NaT split: sum.splits)

lemma range_rows_bad_bound:
  "P a = Inl x \<Longrightarrow> range_rows P a b df = []"
  "P b = Inl x \<Longrightarrow> range_rows P a b df = []"
  by (simp_all add: range_rows_def split: sum.splits)

lemma range_failure_rows: "range_failure P a b df \<noteq> None \<Longrightarrow> range_rows P a b df = []"
  by (auto simp: range_failure_def range_rows_def split: if_splits sum.splits)

lemma sorted_recent_rows: "sorted (map Date (recent_rows P n w))"
  by (simp add: recent_rows_def sorted_range_rows split: sum.splits)

section \<open>The order of a range and the weight change\<close>

text \<open>
  Claim C4 says that the rows of a range come in ascending order of calendar date, the
  dates parsed and not compared as strings. The code masks on the parsed column and then
  sorts on the text column (line 177). With the stored dates 2024-1-5 and 2024-1-10,
  which the parser reads as the fifth and the tenth of January, the result has the
  tenth before the fifth, since the string \<^verbatim>\<open>2024-1-10\<close> sorts before \<^verbatim>\<open>2024-1-5\<close>.
\<close>

theorem range_query_not_calendar_sorted:
  "pd_to_datetime ''2024-1-5'' = Inr (Some (YMD 2024 1 5))
   \<and> pd_to_datetime ''2024-1-10'' = Inr (Some (YMD 2024 1 10))
   \<and> fst (get_date_range_data pd_to_datetime ''2024-01-01'' ''2024-01-31'' unpadded_store) =
     Inr [\<lparr>Date = ''2024-1-10'', Calories = Some 2000, Protein = None, Carbs = None, Fat = None,
           Weight = Some 145, Calorie_Goal = None\<rparr>,
          \<lparr>Date = ''2024-1-5'', Calories = Some 1800, Protein = None, Carbs = None, Fat = None,
           Weight = Some 150, Calorie_Goal = None\<rparr>]
   \<and> \<not> calendar_sorted pd_to_datetime
         [\<lparr>Date = ''2024-1-10'', Calories = Some 2000, Protein = None, Carbs = None, Fat = None,
           Weight = Some 145, Calorie_Goal = None\<rparr>,
          \<lparr>Date = ''2024-1-5'', Calories = Some 1800, Protein = None, Carbs = None, Fat = None,
           Weight = Some 150, Calorie_Goal = None\<rparr>]"
  by code_simp

text \<open>
  Claim C5 says that the weight change is the last recorded weight minus the first, the
  rows ordered by date. The summary takes the first and the last row of the window as
  \<^verbatim>\<open>get_recent_data\<close> returns it, in the order of the date strings: with 150 recorded on
  2024-1-5 and 145 on 2024-1-10 the change should be 145 - 150 = -5, and the code
  returns 150 - 145 = 5.
\<close>

theorem weight_change_in_string_order:
  "fst (get_summary_stats pd_to_datetime 30 unpadded_store) =
     Inr (Some \<lparr>avg_calories = 1900, avg_protein = 0, avg_carbs = 0, avg_fat = 0,
                 avg_weight = 295 / 2, weight_change = Some 5, goal_achievement_rate = 0,
                 days_with_data = 2\<rparr>)"
  by code_simp

section \<open>The summary and the window\<close>

lemma recent_rows_window:
  "case window_bounds P n w of
     None \<Rightarrow> recent_rows P n w = []
   | Some (s, e) \<Rightarrow>
       if list_ex (\<lambda>r. raises P (Date r)) (stored w) then recent_rows P n w = []
       else mset (recent_rows P n w) = mset (filter (in_range P s e) (stored w))"
proof (cases "date_minus_days (date_part (now w)) (n - 1)")
  case (Inl x)
  then show ?thesis by (simp add: window_bounds_def recent_rows_def)
next
  case sd: (Inr start_date)
  let ?a = "strftime_ymd start_date" and ?b = "strftime_ymd (date_part (now w))"
  have rr: "recent_rows P n w = range_rows P ?a ?b (stored w)"
    using sd by (simp add: recent_rows_def)
  show ?thesis
  proof (cases "P ?a")
    case (Inl x)
    then show ?thesis using sd by (simp add: window_bounds_def rr range_rows_bad_bound)
  next
    case a: (Inr sa)
    show ?thesis
    proof (cases sa)
      case None
      with a show ?thesis using sd by (simp add: window_bounds_def rr range_rows_NaT_bound)
    next
      case s: (Some s)
      show ?thesis
      proof (cases "P ?b")
        case (Inl x)
        then show ?thesis using sd a s by (simp add: window_bounds_def rr range_rows_bad_bound)
      next
        case b: (Inr sb)
        show ?thesis
        proof (cases sb)
          case None
          with b show ?thesis using sd a s
            by (simp add: window_bounds_def rr range_rows_NaT_bound)
        next
          case e: (Some e)
          have wb: "window_bounds P n w = Some (s, e)"
            using sd a s b e by (simp add: window_bounds_def)
          show ?thesis
          proof (cases "list_ex (\<lambda>r. raises P (Date r)) (stored w)")
            case True
            then show ?thesis by (simp add: wb rr range_rows_raises)
          next
            case False
            from range_rows_parsed [OF False, of ?a s ?b e] a s b e
            show ?thesis using False by (simp add: wb rr)
          qed
        qed
      qed
    qed
  qed
qed

text \<open>
  Claim C10 as stated says that the summary is absent only when the window holds no
  row. A readable file with a row of 2024-01-10, inside the window of 30 days that
  ends on 2024-01-15, and a row whose date text is not a date: the parser raises on the
  column, \<^verbatim>\<open>get_date_range_data\<close> returns the empty frame, and the summary is None.
\<close>

theorem summary_absent_with_row_in_window:
  "read_failure garbage_store = None
   \<and> window_bounds pd_to_datetime 30 garbage_store = Some (YMD 2023 12 17, YMD 2024 1 15)
   \<and> list_ex (in_range pd_to_datetime (YMD 2023 12 17) (YMD 2024 1 15)) (stored garbage_store)
   \<and> fst (get_summary_stats pd_to_datetime 30 garbage_store) = Inr None"
  by code_simp

text \<open>
  Claim C10, amended. \<^verbatim>\<open>get_summary_stats\<close> never raises. It returns None exactly when
  \<^verbatim>\<open>get_recent_data\<close> returns no row, and that is: when there is no window, or the parser
  raises on the date of a stored row, or no stored row has its date in the window.
  Otherwise it returns the statistics of exactly the stored rows whose date is in the
  window, whatever their cells hold.
\<close>

theorem summary_absent_iff_no_window_row:
  "\<exists>df. fst (get_recent_data P n w) = Inr df
     \<and> fst (get_summary_stats P n w) = Inr (if df = [] then None else Some (summary_of df))
     \<and> (case window_bounds P n w of
          None \<Rightarrow> df = []
        | Some (s, e) \<Rightarrow>
            if list_ex (\<lambda>r. raises P (Date r)) (stored w) then df = []
            else mset df = mset (filter (in_range P s e) (stored w)))
     \<and> (fst (get_summary_stats P n w) = Inr None \<longleftrightarrow>
          (case window_bounds P n w of
             None \<Rightarrow> True
           | Some (s, e) \<Rightarrow>
               list_ex (\<lambda>r. raises P (Date r)) (stored w)
               \<or> \<not> list_ex (in_range P s e) (stored w)))"
proof -
  let ?df = "recent_rows P n w"
  have r: "fst (get_recent_data P n w) = Inr ?df" by (simp add: get_recent_data_eq)
  have g: "fst (get_summary_stats P n w) = Inr (if ?df = [] then None else Some (summary_of ?df))"
    by (simp add: get_summary_stats_eq)
  note c = recent_rows_window [of P n w]
  have e: "?df = [] \<longleftrightarrow>
          (case window_bounds P n w of
             None \<Rightarrow> True
           | Some (s, e) \<Rightarrow>
               list_ex (\<lambda>r. raises P (Date r)) (stored w)
               \<or> \<not> list_ex (in_range P s e) (stored w))"
  proof (cases "window_bounds P n w")
    case None
    with c show ?thesis by simp
  next
    case (Some se)
    obtain s e where se: "se = (s, e)" by (cases se)
    show ?thesis
    proof (cases "list_ex (\<lambda>r. raises P (Date r)) (stored w)")
      case True
      with c Some se show ?thesis by simp
    next
      case False
      with c Some se have m: "mset ?df = mset (filter (in_range P s e) (stored w))" by simp
      have "?df = [] \<longleftrightarrow> filter (in_range P s e) (stored w) = []"
        using m by (metis mset_zero_iff)
      then show ?thesis using False Some se
        by (simp add: filter_empty_conv list_ex_iff)
    qed
  qed
  have "fst (get_summary_stats P n w) = Inr None \<longleftrightarrow> ?df = []"
    by (simp add: g)
  with e have i: "fst (get_summary_stats P n w) = Inr None \<longleftrightarrow>
          (case window_bounds P n w of
             None \<Rightarrow> True
           | Some (s, e) \<Rightarrow>
               list_ex (\<lambda>r. raises P (Date r)) (stored w)
               \<or> \<not> list_ex (in_range P s e) (stored w))"
    by simp
  from r g c i show ?thesis by blast
qed

theorem summary_absent_iff_no_window_row_witness:
  "window_bounds pd_to_datetime 30 blank_store = Some (YMD 2023 12 17, YMD 2024 1 15)
   \<and> \<not> list_ex (\<lambda>r. raises pd_to_datetime (Date r)) (stored blank_store)
   \<and> list_ex (in_range pd_to_datetime (YMD 2023 12 17) (YMD 2024 1 15)) (stored blank_store)
   \<and> fst (get_summary_stats pd_to_datetime 30 blank_store) =
     Inr (Some \<lparr>avg_calories = 0, avg_protein = 0, avg_carbs = 0, avg_fat = 0, avg_weight = 0,
                 weight_change = None, goal_achievement_rate = 0, days_with_data = 0\<rparr>)"
proof -
  let ?x = "\<lparr>Date = ''2024-01-10'', Calories = None, Protein = None, Carbs = None, Fat = None,
           Weight = None, Calorie_Goal = None\<rparr> :: row"
  have wb: "window_bounds pd_to_datetime 30 blank_store = Some (YMD 2023 12 17, YMD 2024 1 15)"
    by code_simp
  have nr: "list_ex (\<lambda>r. raises pd_to_datetime (Date r)) (stored blank_store) = False"
    by code_simp
  have ir: "list_ex (in_range pd_to_datetime (YMD 2023 12 17) (YMD 2024 1 15)) (stored blank_store)
      = True"
    by code_simp
  have f: "filter (in_range pd_to_datetime (YMD 2023 12 17) (YMD 2024 1 15)) (stored blank_store)
      = [?x]"
    by code_simp
  have s: "summary_of [?x]
     = \<lparr>avg_calories = 0, avg_protein = 0, avg_carbs = 0, avg_fat = 0, avg_weight = 0,
        weight_change = None, goal_achievement_rate = 0, days_with_data = 0\<rparr>"
    by (simp add: summary_of_def mean_or_zero_def List.map_filter_simps)
  from summary_absent_iff_no_window_row [of pd_to_datetime 30 blank_store]
  obtain df where g: "fst (get_summary_stats pd_to_datetime 30 blank_store)
        = Inr (if df = [] then None else Some (summary_of df))"
    and c: "case window_bounds pd_to_datetime 30 blank_store of
          None \<Rightarrow> df = []
        | Some (s, e) \<Rightarrow>
            if list_ex (\<lambda>r. raises pd_to_datetime (Date r)) (stored blank_store) then df = []
            else mset df = mset (filter (in_range pd_to_datetime s e) (stored blank_store))"
    by blast
  from c have "mset df = mset [?x]"
    unfolding wb nr by (simp only: option.case prod.case if_False f)
  then have "df = [?x]" by simp
  with g s have "fst (get_summary_stats pd_to_datetime 30 blank_store) =
     Inr (Some \<lparr>avg_calories = 0, avg_protein = 0, avg_carbs = 0, avg_fat = 0, avg_weight = 0,
                 weight_change = None, goal_achievement_rate = 0, days_with_data = 0\<rparr>)"
    by simp
  with wb nr ir show ?thesis by simp
qed

section \<open>The weekly summary at the turn of the year\<close>

text \<open>
  Claim C9 says that two rows are in the same group exactly when they fall in the same
  ISO week. Monday 2024-12-30 and Wednesday 2025-01-01 are both in week 1 of the ISO
  year 2025, and the weekly summary of a store that holds them puts them into two
  groups, with the keys (2024, 1) and (2025, 1): the key takes the calendar year.
\<close>

theorem weekly_summary_splits_iso_week:
  "isocalendar (YMD 2024 12 30) = (2025, 1, 1)
   \<and> isocalendar (YMD 2025 1 1) = (2025, 1, 3)
   \<and> fst (create_weekly_summary_chart pd_to_datetime 4 new_year_store) =
       Inr (Some [\<lparr>Year = 2024, Week = 1, mean_Calories = Some 2000, mean_Weight = None,
                    mean_Protein = None, mean_Carbs = None, mean_Fat = None\<rparr>,
                  \<lparr>Year = 2025, Week = 1, mean_Calories = Some 1000, mean_Weight = None,
                    mean_Protein = None, mean_Carbs = None, mean_Fat = None\<rparr>])"
  by code_simp

section \<open>Failures\<close>

text \<open>
  Claim C3 as stated covers every operation of the store and promises the safe value
  at every failure. \<^verbatim>\<open>ensure_data_file_exists\<close>, which the constructor calls, raises to its
  caller when the file is absent and cannot be created. And on a file that cannot be
  read but can be written, \<^verbatim>\<open>update_day_data\<close> goes on with the empty table that
  \<^verbatim>\<open>load_data\<close> returned, replaces the file and returns True.
\<close>

theorem ensure_raises_and_upsert_reports_success:
  "fst (ensure_data_file_exists locked_store) = Inl OSError
   \<and> read_failure unreadable_store = Some BadFile
   \<and> fst (update_day_data ''2024-01-15'' [(''calories'', 500)] unreadable_store) = Inr True
   \<and> disk (snd (update_day_data ''2024-01-15'' [(''calories'', 500)] unreadable_store)) =
       Sheet [\<lparr>Date = ''2024-01-15'', Calories = Some 500, Protein = Some 0, Carbs = Some 0,
               Fat = Some 0, Weight = Some 0, Calorie_Goal = Some 0\<rparr>]"
  by code_simp

text \<open>
  Claim C3, amended. No method of the store other than \<^verbatim>\<open>ensure_data_file_exists\<close>
  raises, in any world and for any arguments, and each failure of a read, a write, a
  copy, a date parse or a date computation leaves its entry in the log: the log
  after a call is the log before it followed by exactly the entries of the failures
  (and of the successful writes). The safe values:
  \<^item> \<^verbatim>\<open>load_data\<close> returns the empty table when the read fails, and \<^verbatim>\<open>get_day_data\<close> then
    returns None;
  \<^item> \<^verbatim>\<open>save_data\<close> returns False when the write fails, and so do \<^verbatim>\<open>update_day_data\<close> and
    \<^verbatim>\<open>delete_day_data\<close>, which leave the file as it was;
  \<^item> \<^verbatim>\<open>get_date_range_data\<close> returns the empty table when the read fails or the parser
    raises on a stored date or on a bound;
  \<^item> \<^verbatim>\<open>get_recent_data\<close> returns the empty table, and \<^verbatim>\<open>get_summary_stats\<close> None, when the
    start of the window is out of the calendar; otherwise \<^verbatim>\<open>get_recent_data\<close> is the
    range query of the formatted bounds, and \<^verbatim>\<open>get_summary_stats\<close> returns None whenever
    that query returns the empty table;
  \<^item> \<^verbatim>\<open>backup_data\<close> returns None when the copy fails.
  \<^verbatim>\<open>ensure_data_file_exists\<close> logs the error and raises it again. For \<^verbatim>\<open>update_day_data\<close>
  and \<^verbatim>\<open>delete_day_data\<close> the safe value is stated for a failed write only.
\<close>

theorem store_methods_do_not_raise:
  "\<not> isl (fst (load_data w)) \<and> \<not> isl (fst (save_data df w)) \<and> \<not> isl (fst (get_all_data w))
   \<and> \<not> isl (fst (get_day_data d w)) \<and> \<not> isl (fst (update_day_data d u w))
   \<and> \<not> isl (fst (get_date_range_data P a b w)) \<and> \<not> isl (fst (get_recent_data P n w))
   \<and> \<not> isl (fst (delete_day_data d w)) \<and> \<not> isl (fst (get_summary_stats P n w))
   \<and> \<not> isl (fst (backup_data name w))
   \<and> load_data w =
       (Inr (stored w), w\<lparr>log := log w @ error_entries ''Failed to load data'' (read_failure w)\<rparr>)
   \<and> (read_failure w \<noteq> None \<longrightarrow> stored w = [])
   \<and> get_day_data d w =
       (Inr (find (\<lambda>r. Date r = d) (stored w)),
        w\<lparr>log := log w @ error_entries ''Failed to load data'' (read_failure w)\<rparr>)
   \<and> (read_failure w \<noteq> None \<longrightarrow> fst (get_day_data d w) = Inr None)
   \<and> save_data df w =
       (if writable w
        then (Inr True, w\<lparr>disk := Sheet df, log := log w @ [Info ''Data saved successfully'']\<rparr>)
        else (Inr False, w\<lparr>log := log w @ [Error ''Failed to save data'' OSError]\<rparr>))
   \<and> (\<not> writable w \<longrightarrow>
        fst (update_day_data d u w) = Inr False \<and> disk (snd (update_day_data d u w)) = disk w
        \<and> fst (delete_day_data d w) = Inr False \<and> disk (snd (delete_day_data d w)) = disk w)
   \<and> log (snd (update_day_data d u w)) =
       log w @ error_entries ''Failed to load data'' (read_failure w)
         @ [if writable w then Info ''Data saved successfully''
            else Error ''Failed to save data'' OSError]
   \<and> log (snd (delete_day_data d w)) =
       log w @ error_entries ''Failed to load data'' (read_failure w)
         @ [if writable w then Info ''Data saved successfully''
            else Error ''Failed to save data'' OSError]
   \<and> (read_failure w \<noteq> None \<or> range_failure P a b (stored w) \<noteq> None \<longrightarrow>
        fst (get_date_range_data P a b w) = Inr [])
   \<and> log (snd (get_date_range_data P a b w)) =
       log w @ error_entries ''Failed to load data'' (read_failure w)
         @ error_entries ''Failed to get date range data'' (range_failure P a b (stored w))
   \<and> (\<forall>e. date_minus_days (date_part (now w)) (n - 1) = Inl e \<longrightarrow>
        get_recent_data P n w =
          (Inr [], w\<lparr>log := log w @ [Error ''Failed to get recent data'' e]\<rparr>)
        \<and> get_summary_stats P n w =
          (Inr None, w\<lparr>log := log w @ [Error ''Failed to get recent data'' e]\<rparr>))
   \<and> (\<forall>s. date_minus_days (date_part (now w)) (n - 1) = Inr s \<longrightarrow>
        get_recent_data P n w =
          get_date_range_data P (strftime_ymd s) (strftime_ymd (date_part (now w))) w
        \<and> snd (get_summary_stats P n w) =
          snd (get_date_range_data P (strftime_ymd s) (strftime_ymd (date_part (now w))) w)
        \<and> (fst (get_date_range_data P (strftime_ymd s) (strftime_ymd (date_part (now w))) w)
             = Inr [] \<longrightarrow> fst (get_summary_stats P n w) = Inr None))
   \<and> backup_data name w =
       (let path = (case name of
                      None \<Rightarrow> ''calorie_data_backup_'' @ strftime_stamp (now w) @ ''.xlsx''
                    | Some given \<Rightarrow> given)
        in if disk w = Absent \<or> \<not> backup_writable w
           then (Inr None, w\<lparr>log := log w @ [Error ''Failed to create backup'' OSError]\<rparr>)
           else (Inr (Some path),
                 w\<lparr>backups := (path, disk w) # backups w,
                   log := log w @ [Info ''Backup created'']\<rparr>))
   \<and> ensure_data_file_exists w =
       (if disk w \<noteq> Absent then (Inr (), w)
        else if writable w
        then (Inr (), w\<lparr>disk := Sheet [], log := log w @ [Info ''Created new data file'']\<rparr>)
        else (Inl OSError, w\<lparr>log := log w @ [Error ''Failed to create data file'' OSError]\<rparr>))"
proof -
  have never: "\<not> isl (fst (load_data w))" "\<not> isl (fst (save_data df w))"
    "\<not> isl (fst (get_all_data w))" "\<not> isl (fst (get_day_data d w))"
    "\<not> isl (fst (update_day_data d u w))" "\<not> isl (fst (get_date_range_data P a b w))"
    "\<not> isl (fst (get_recent_data P n w))" "\<not> isl (fst (delete_day_data d w))"
    "\<not> isl (fst (get_summary_stats P n w))" "\<not> isl (fst (backup_data name w))"
    by (simp_all add: load_data_eq save_data_eq get_all_data_def get_day_data_eq
        update_day_data_eq get_date_range_data_eq get_recent_data_eq delete_day_data_eq
        get_summary_stats_eq backup_data_eq Let_def)
  have ld: "load_data w =
       (Inr (stored w), w\<lparr>log := log w @ error_entries ''Failed to load data'' (read_failure w)\<rparr>)"
    by (simp add: load_data_eq logged_def)
  have rf: "read_failure w \<noteq> None \<longrightarrow> stored w = []"
    by (simp add: read_failure_stored)
  have gd: "get_day_data d w =
       (Inr (find (\<lambda>r. Date r = d) (stored w)),
        w\<lparr>log := log w @ error_entries ''Failed to load data'' (read_failure w)\<rparr>)"
    by (simp add: get_day_data_eq ld)
  have gn: "read_failure w \<noteq> None \<longrightarrow> fst (get_day_data d w) = Inr None"
    by (simp add: gd read_failure_stored)
  have sv: "save_data df w =
       (if writable w
        then (Inr True, w\<lparr>disk := Sheet df, log := log w @ [Info ''Data saved successfully'']\<rparr>)
        else (Inr False, w\<lparr>log := log w @ [Error ''Failed to save data'' OSError]\<rparr>))"
    by (rule save_data_eq)
  have wr: "\<not> writable w \<longrightarrow>
        fst (update_day_data d u w) = Inr False \<and> disk (snd (update_day_data d u w)) = disk w
        \<and> fst (delete_day_data d w) = Inr False \<and> disk (snd (delete_day_data d w)) = disk w"
    by (simp add: update_day_data_eq delete_day_data_eq save_data_eq ld)
  have ul: "log (snd (update_day_data d u w)) =
       log w @ error_entries ''Failed to load data'' (read_failure w)
         @ [if writable w then Info ''Data saved successfully''
            else Error ''Failed to save data'' OSError]"
    by (simp add: update_day_data_eq save_data_eq ld)
  have dl: "log (snd (delete_day_data d w)) =
       log w @ error_entries ''Failed to load data'' (read_failure w)
         @ [if writable w then Info ''Data saved successfully''
            else Error ''Failed to save data'' OSError]"
    by (simp add: delete_day_data_eq save_data_eq ld)
  have rg: "read_failure w \<noteq> None \<or> range_failure P a b (stored w) \<noteq> None \<longrightarrow>
        fst (get_date_range_data P a b w) = Inr []"
  proof
    assume "read_failure w \<noteq> None \<or> range_failure P a b (stored w) \<noteq> None"
    then have "range_rows P a b (stored w) = []"
    proof
      assume "read_failure w \<noteq> None"
      then have "stored w = []" by (rule read_failure_stored)
      then show ?thesis by (simp add: range_rows_def)
    next
      assume "range_failure P a b (stored w) \<noteq> None"
      then show ?thesis by (rule range_failure_rows)
    qed
    then show "fst (get_date_range_data P a b w) = Inr []"
      by (simp add: get_date_range_data_eq)
  qed
  have rl: "log (snd (get_date_range_data P a b w)) =
       log w @ error_entries ''Failed to load data'' (read_failure w)
         @ error_entries ''Failed to get date range data'' (range_failure P a b (stored w))"
    by (simp add: get_date_range_data_eq ld logged_def)
  have ov: "\<forall>e. date_minus_days (date_part (now w)) (n - 1) = Inl e \<longrightarrow>
        get_recent_data P n w =
          (Inr [], w\<lparr>log := log w @ [Error ''Failed to get recent data'' e]\<rparr>)
        \<and> get_summary_stats P n w =
          (Inr None, w\<lparr>log := log w @ [Error ''Failed to get recent data'' e]\<rparr>)"
    by (simp add: get_recent_data_eq get_summary_stats_eq recent_rows_def)
  have rc: "\<forall>s. date_minus_days (date_part (now w)) (n - 1) = Inr s \<longrightarrow>
        get_recent_data P n w =
          get_date_range_data P (strftime_ymd s) (strftime_ymd (date_part (now w))) w
        \<and> snd (get_summary_stats P n w) =
          snd (get_date_range_data P (strftime_ymd s) (strftime_ymd (date_part (now w))) w)
        \<and> (fst (get_date_range_data P (strftime_ymd s) (strftime_ymd (date_part (now w))) w)
             = Inr [] \<longrightarrow> fst (get_summary_stats P n w) = Inr None)"
    by (simp add: get_recent_data_eq get_summary_stats_eq recent_rows_def
        get_date_range_data_eq)
  have bk: "backup_data name w =
       (let path = (case name of
                      None \<Rightarrow> ''calorie_data_backup_'' @ strftime_stamp (now w) @ ''.xlsx''
                    | Some given \<Rightarrow> given)
        in if disk w = Absent \<or> \<not> backup_writable w
           then (Inr None, w\<lparr>log := log w @ [Error ''Failed to create backup'' OSError]\<rparr>)
           else (Inr (Some path),
                 w\<lparr>backups := (path, disk w) # backups w,
                   log := log w @ [Info ''Backup created'']\<rparr>))"
    by (rule backup_data_eq)
  have en: "ensure_data_file_exists w =
       (if disk w \<noteq> Absent then (Inr (), w)
        else if writable w
        then (Inr (), w\<lparr>disk := Sheet [], log := log w @ [Info ''Created new data file'']\<rparr>)
        else (Inl OSError, w\<lparr>log := log w @ [Error ''Failed to create data file'' OSError]\<rparr>))"
    by (rule ensure_data_file_exists_eq)
  from never ld rf gd gn sv wr ul dl rg rl ov rc bk en show ?thesis by (intro conjI)
qed

theorem store_methods_do_not_raise_witness:
  "read_failure broken_store = Some BadFile \<and> \<not> writable broken_store
   \<and> \<not> backup_writable broken_store
   \<and> range_failure pd_to_datetime ''2024-01-01'' ''2024-01-31'' (stored garbage_store)
       = Some ParserError
   \<and> fst (load_data broken_store) = Inr []
   \<and> log (snd (load_data broken_store)) = [Error ''Failed to load data'' BadFile]
   \<and> fst (get_day_data ''2024-01-15'' broken_store) = Inr None
   \<and> fst (save_data [] broken_store) = Inr False
   \<and> log (snd (save_data [] broken_store)) = [Error ''Failed to save data'' OSError]
   \<and> fst (update_day_data ''2024-01-15'' [] broken_store) = Inr False
   \<and> log (snd (update_day_data ''2024-01-15'' [] broken_store)) =
       [Error ''Failed to load data'' BadFile, Error ''Failed to save data'' OSError]
   \<and> fst (backup_data None broken_store) = Inr None
   \<and> log (snd (backup_data None broken_store)) = [Error ''Failed to create backup'' OSError]
   \<and> fst (get_date_range_data pd_to_datetime ''2024-01-01'' ''2024-01-31'' garbage_store) = Inr []
   \<and> log (snd (get_date_range_data pd_to_datetime ''2024-01-01'' ''2024-01-31'' garbage_store)) =
       [Error ''Failed to get date range data'' ParserError]"
proof -
  have c: "read_failure broken_store = Some BadFile" and w: "\<not> writable broken_store"
    and bw: "\<not> backup_writable broken_store" and l: "log broken_store = []"
    by (simp_all add: broken_store_def empty_store_def read_failure_def)
  have g: "range_failure pd_to_datetime ''2024-01-01'' ''2024-01-31'' (stored garbage_store)
       = Some ParserError"
    by code_simp
  have gr: "read_failure garbage_store = None" and gl: "log garbage_store = []"
    by (simp_all add: garbage_store_def empty_store_def read_failure_def)
  note t = store_methods_do_not_raise [of broken_store "[]" "''2024-01-15''" "[]" pd_to_datetime
        "''2024-01-01''" "''2024-01-31''" 30 None]
  note t' = store_methods_do_not_raise [of garbage_store "[]" "''2024-01-15''" "[]" pd_to_datetime
        "''2024-01-01''" "''2024-01-31''" 30 None]
  from t have
    "load_data broken_store =
       (Inr (stored broken_store),
        broken_store\<lparr>log := log broken_store
           @ error_entries ''Failed to load data'' (read_failure broken_store)\<rparr>)"
    and "stored broken_store = []"
    and "fst (get_day_data ''2024-01-15'' broken_store) = Inr None"
    and "save_data [] broken_store =
       (Inr False, broken_store\<lparr>log := log broken_store @ [Error ''Failed to save data'' OSError]\<rparr>)"
    and "fst (update_day_data ''2024-01-15'' [] broken_store) = Inr False"
    and "log (snd (update_day_data ''2024-01-15'' [] broken_store)) =
       log broken_store @ error_entries ''Failed to load data'' (read_failure broken_store)
         @ [Error ''Failed to save data'' OSError]"
    and "backup_data None broken_store =
          (Inr None, broken_store\<lparr>log := log broken_store @ [Error ''Failed to create backup'' OSError]\<rparr>)"
    using c w bw by simp_all
  moreover from t' have
    "fst (get_date_range_data pd_to_datetime ''2024-01-01'' ''2024-01-31'' garbage_store) = Inr []"
    and "log (snd (get_date_range_data pd_to_datetime ''2024-01-01'' ''2024-01-31'' garbage_store)) =
       log garbage_store @ error_entries ''Failed to load data'' (read_failure garbage_store)
         @ error_entries ''Failed to get date range data''
             (range_failure pd_to_datetime ''2024-01-01'' ''2024-01-31'' (stored garbage_store))"
    using g by simp_all
  ultimately show ?thesis
    using c w bw l g gr gl by (simp add: error_entries_def)
qed

end
